theory Spec2Isabelle
  imports Complex_Main
begin

section \<open>ehtplot.color.uniformize: perceptually uniform colour maps\<close>

text \<open>
  The module \<^verbatim>\<open>src/ehtplot/color/uniformize.py\<close> builds colour maps and re-parameterises
  existing ones so that their perceptual lightness is linear (\<^verbatim>\<open>linearize\<close>) or symmetric
  (\<^verbatim>\<open>symmetrize\<close>) in the sample index.

  Modelling conventions.
  \<^item> A Python \<^verbatim>\<open>float\<close> is a \<^typ>\<open>real\<close>: rounding and overflow are not modelled. What
    Python raises on floats (\<^verbatim>\<open>math.sqrt\<close> of a negative number, division by zero) is a
    branch of the model.
  \<^item> In \<^verbatim>\<open>convert\<close> the arguments \<open>darkest\<close>, \<open>lightest\<close> and the value of the saturation
    profile are Python numbers or numpy scalars: numpy's division by zero does not raise,
    it returns an infinity or NaN (and warns). There the values are IEEE values (a real
    number, an infinity or NaN), and so are the channels that the colour-space conversion
    returns for the computed point, which may lie outside the gamut. Everywhere else the
    values are finite: the lightness of a colour that a colour map returns is a real number.
  \<^item> A Python \<^verbatim>\<open>int\<close> (\<^verbatim>\<open>N\<close>, \<^verbatim>\<open>i\<close>) is an \<^typ>\<open>int\<close>.
  \<^item> An exception is a value \<open>Inl e\<close> of \<open>error + 'a\<close>.
  \<^item> The library functions the module calls are parameters of the model: the colour-space
    conversion \<^verbatim>\<open>cspace_convert\<close> (colorspacious), the root finder \<^verbatim>\<open>bisect\<close> and the
    optimiser \<^verbatim>\<open>minimize\<close> (scipy). The colour map \<^verbatim>\<open>cm\<close> and the saturation and hue
    profiles are arguments of the Python functions already. All of them are taken to be
    total functions without effects.
  \<^item> \<^verbatim>\<open>print\<close> appends a line to a log that the function returns next to its value;
    \<^verbatim>\<open>np.savetxt\<close> is recorded in the outcome.
\<close>

subsection \<open>Errors, colours and the library interface\<close>

datatype error =
    ValueError string
  | ZeroDivisionError string
  | RuntimeError string

definition DivergenceError :: error where
  \<comment> \<open>line 86: \<^verbatim>\<open>raise ValueError('colormap does not seem to diverge')\<close>\<close>
  "DivergenceError = ValueError ''colormap does not seem to diverge''"

datatype cspace = sRGB1 | CAM02_UCS

type_synonym triple = "real \<times> real \<times> real"

type_synonym converter = "triple \<Rightarrow> cspace \<Rightarrow> cspace \<Rightarrow> triple"

text \<open>
  A number handed to \<^verbatim>\<open>convert\<close>: a Python \<^verbatim>\<open>int\<close> or \<^verbatim>\<open>float\<close>, or a numpy scalar such as
  \<^verbatim>\<open>np.float64\<close>. Both are finite here; they differ in what their arithmetic does.
\<close>

datatype number = PyNum real | NpNum real

fun val :: "number \<Rightarrow> real" where
  "val (PyNum x) = x"
| "val (NpNum x) = x"

fun is_np :: "number \<Rightarrow> bool" where
  "is_np (PyNum x) = False"
| "is_np (NpNum x) = True"

text \<open>An IEEE double that need not be finite.\<close>

datatype fl = Fin real | PInf | NInf | NaN

type_synonym fl_triple = "fl \<times> fl \<times> fl"

type_synonym gamut_converter = "fl_triple \<Rightarrow> cspace \<Rightarrow> cspace \<Rightarrow> fl_triple"

text \<open>
  A colour map is called with a scalar and returns a colour that is unpacked into the
  arguments of \<^verbatim>\<open>lightness(r, g, b, a=1.0)\<close>: three or four components.
\<close>

datatype color = RGB real real real | RGBA real real real real

type_synonym colormap_fn = "real \<Rightarrow> color"

type_synonym solver = "(real \<Rightarrow> real) \<Rightarrow> real \<Rightarrow> real \<Rightarrow> error + real"

type_synonym optimizer = "(real \<Rightarrow> real) \<Rightarrow> real \<Rightarrow> real"

text \<open>The value of \<^verbatim>\<open>linearize\<close> and \<^verbatim>\<open>symmetrize\<close>: the map returned
  (\<^verbatim>\<open>ListedColormap(carr)\<close>) or the table written (\<^verbatim>\<open>np.savetxt(save, carr)\<close>).\<close>

datatype outcome = Returned "color list" | Saved string "color list"

fun colors :: "outcome \<Rightarrow> color list" where
  "colors (Returned carr) = carr"
| "colors (Saved file carr) = carr"

definition finish :: "string option \<Rightarrow> color list \<Rightarrow> outcome" where
  \<comment> \<open>lines 67-70 and 116-119\<close>
  "finish save carr = (case save of None \<Rightarrow> Returned carr | Some file \<Rightarrow> Saved file carr)"

subsection \<open>Python and numpy arithmetic\<close>

definition py_sqrt :: "real \<Rightarrow> error + real" where
  \<comment> \<open>\<^verbatim>\<open>math.sqrt\<close>\<close>
  "py_sqrt x = (if x < 0 then Inl (ValueError ''math domain error'') else Inr (sqrt x))"

definition py_div :: "real \<Rightarrow> real \<Rightarrow> error + real" where
  \<comment> \<open>\<^verbatim>\<open>/\<close> on floats\<close>
  "py_div x y = (if y = 0 then Inl (ZeroDivisionError ''float division by zero'') else Inr (x / y))"

definition arith :: "(real \<Rightarrow> real \<Rightarrow> real) \<Rightarrow> number \<Rightarrow> number \<Rightarrow> number" where
  \<comment> \<open>\<^verbatim>\<open>+\<close>, \<^verbatim>\<open>-\<close>, \<^verbatim>\<open>*\<close> on two numbers: a numpy scalar as either operand makes the result
      a numpy scalar\<close>
  "arith op x y = (if is_np x \<or> is_np y then NpNum else PyNum) (op (val x) (val y))"

definition np_div :: "real \<Rightarrow> real \<Rightarrow> fl" where
  \<comment> \<open>\<^verbatim>\<open>/\<close> with a numpy scalar as an operand, in numpy's default error state: a zero divisor
      (here always the \<open>+0.0\<close> that \<^verbatim>\<open>sqrt\<close> returns) gives a warning and \<open>inf\<close>, \<open>-inf\<close> or
      \<open>nan\<close>, no exception\<close>
  "np_div x y =
     (if y \<noteq> 0 then Fin (x / y) else if 0 < x then PInf else if x < 0 then NInf else NaN)"

definition div_num :: "number \<Rightarrow> number \<Rightarrow> error + fl" where
  \<comment> \<open>\<^verbatim>\<open>x / y\<close>: Python's division when both are Python numbers, numpy's otherwise\<close>
  "div_num x y =
     (if is_np x \<or> is_np y then Inr (np_div (val x) (val y))
      else map_sum id Fin (py_div (val x) (val y)))"

fun fl_times :: "fl \<Rightarrow> real \<Rightarrow> fl" where
  \<comment> \<open>the product with a finite Python float: an infinity times zero is NaN\<close>
  "fl_times (Fin x) y = Fin (x * y)"
| "fl_times PInf y = (if 0 < y then PInf else if y < 0 then NInf else NaN)"
| "fl_times NInf y = (if 0 < y then NInf else if y < 0 then PInf else NaN)"
| "fl_times NaN y = NaN"

fun clip1 :: "fl \<Rightarrow> real \<Rightarrow> real \<Rightarrow> fl" where
  \<comment> \<open>\<^verbatim>\<open>minimum(maximum(x, lo), hi)\<close> on one component: NaN stays NaN\<close>
  "clip1 (Fin x) lo hi = Fin (min (max x lo) hi)"
| "clip1 PInf lo hi = Fin hi"
| "clip1 NInf lo hi = Fin (min lo hi)"
| "clip1 NaN lo hi = NaN"

definition clip :: "fl_triple \<Rightarrow> real \<Rightarrow> real \<Rightarrow> fl_triple" where
  \<comment> \<open>\<^verbatim>\<open>np.clip(x, lo, hi)\<close> is \<^verbatim>\<open>minimum(maximum(x, lo), hi)\<close> on each component\<close>
  "clip t lo hi = (case t of (r, g, b) \<Rightarrow> (clip1 r lo hi, clip1 g lo hi, clip1 b lo hi))"

definition linspace_sample :: "real \<Rightarrow> real \<Rightarrow> int \<Rightarrow> nat \<Rightarrow> real" where
  \<comment> \<open>sample \<open>i\<close> of \<^verbatim>\<open>np.linspace(start, stop, num)\<close>: a single sample is \<open>start\<close>,
      otherwise the step is \<open>(stop - start) / (num - 1)\<close>\<close>
  "linspace_sample start stop num i =
     (if num = 1 then start else start + real i * ((stop - start) / real_of_int (num - 1)))"

fun digits :: "nat \<Rightarrow> string" where
  \<comment> \<open>the decimal digits of a natural number\<close>
  "digits n =
     (if n < 10 then [''0123456789'' ! n]
      else digits (n div 10) @ [''0123456789'' ! (n mod 10)])"

definition str_int :: "int \<Rightarrow> string" where
  \<comment> \<open>\<^verbatim>\<open>str\<close> of a Python \<^verbatim>\<open>int\<close>\<close>
  "str_int k = (if k < 0 then CHR ''-'' # digits (nat (- k)) else digits (nat k))"

definition linspace :: "real \<Rightarrow> real \<Rightarrow> int \<Rightarrow> error + real list" where
  \<comment> \<open>\<^verbatim>\<open>np.linspace(start, stop, num)\<close> with the end point included; a negative \<open>num\<close> is
      refused with a \<^verbatim>\<open>ValueError\<close>\<close>
  "linspace start stop num =
     (if num < 0
      then Inl (ValueError (''Number of samples, '' @ str_int num @ '', must be non-negative.''))
      else Inr (map (linspace_sample start stop num) [0..<nat num]))"

definition absolute :: "real list \<Rightarrow> real list" where
  \<comment> \<open>\<^verbatim>\<open>np.absolute\<close>\<close>
  "absolute xs = map abs xs"

fun collect :: "(error + 'a) list \<Rightarrow> error + 'a list" where
  \<comment> \<open>a list comprehension whose element may raise: the first exception ends it\<close>
  "collect [] = Inr []"
| "collect (Inl e # rs) = Inl e"
| "collect (Inr x # rs) = (case collect rs of Inl e \<Rightarrow> Inl e | Inr xs \<Rightarrow> Inr (x # xs))"

subsection \<open>\<^verbatim>\<open>convert\<close> and \<^verbatim>\<open>colormap\<close> (lines 33-49)\<close>

definition convert ::
  "gamut_converter \<Rightarrow> int \<Rightarrow> int \<Rightarrow> number \<Rightarrow> number \<Rightarrow> (real \<Rightarrow> number) option
   \<Rightarrow> (real \<Rightarrow> real) option \<Rightarrow> error + fl_triple" where
  "convert cspace_convert i N darkest lightest saturation hue =
     (case py_div (real_of_int i) (real_of_int N - 1.0) of
        Inl e \<Rightarrow> Inl e
      | Inr f \<Rightarrow>
          (case (case saturation of None \<Rightarrow> map_sum id PyNum (py_sqrt 0.5)
                 | Some sat \<Rightarrow> Inr (sat f)) of
             Inl e \<Rightarrow> Inl e
           | Inr s \<Rightarrow>
               (let hp = (case hue of None \<Rightarrow> 0.0 | Some h \<Rightarrow> h f);
                    Jp = arith (+) darkest (arith (*) (PyNum f) (arith (-) lightest darkest))
                in case py_sqrt (val (arith (-) (PyNum 1.0) (arith (*) s s))) of
                     Inl e \<Rightarrow> Inl e
                   | Inr rad \<Rightarrow>
                       (case div_num (arith (*) Jp s) (PyNum rad) of
                          Inl e \<Rightarrow> Inl e
                        | Inr Cp \<Rightarrow>
                            Inr (clip (cspace_convert
                                         (Fin (val Jp), fl_times Cp (cos hp), fl_times Cp (sin hp))
                                         CAM02_UCS sRGB1) 0 1)))))"

definition colormap ::
  "gamut_converter \<Rightarrow> int \<Rightarrow> number \<Rightarrow> number \<Rightarrow> (real \<Rightarrow> number) option
   \<Rightarrow> (real \<Rightarrow> real) option \<Rightarrow> error + fl_triple list" where
  \<comment> \<open>\<^verbatim>\<open>ListedColormap([convert(i, N, **kwargs) for i in range(N)])\<close>\<close>
  "colormap cspace_convert N darkest lightest saturation hue =
     collect (map (\<lambda>i. convert cspace_convert (int i) N darkest lightest saturation hue)
                  [0..<nat N])"

subsection \<open>\<^verbatim>\<open>lightness\<close> (lines 51-52)\<close>

definition lightness :: "converter \<Rightarrow> real \<Rightarrow> real \<Rightarrow> real \<Rightarrow> real \<Rightarrow> real" where
  "lightness cspace_convert r g b a = fst (cspace_convert (r, g, b) sRGB1 CAM02_UCS)"

fun lightness_star :: "converter \<Rightarrow> color \<Rightarrow> real" where
  \<comment> \<open>\<^verbatim>\<open>lightness(*c)\<close>: a missing fourth component takes the default \<open>a = 1.0\<close>\<close>
  "lightness_star cspace_convert (RGB r g b) = lightness cspace_convert r g b 1.0"
| "lightness_star cspace_convert (RGBA r g b a) = lightness cspace_convert r g b a"

definition v2l :: "converter \<Rightarrow> colormap_fn \<Rightarrow> real \<Rightarrow> real" where
  \<comment> \<open>lines 58-59 and 76-77; the optimiser's one-element array is the scalar it holds\<close>
  "v2l cspace_convert cm v = lightness_star cspace_convert (cm v)"

definition v2ml :: "converter \<Rightarrow> colormap_fn \<Rightarrow> real \<Rightarrow> real" where
  \<comment> \<open>lines 78-79\<close>
  "v2ml cspace_convert cm v = - lightness_star cspace_convert (cm v)"

subsection \<open>\<^verbatim>\<open>linearize\<close> (lines 54-70)\<close>

definition lin_lmin :: "converter \<Rightarrow> colormap_fn \<Rightarrow> real option \<Rightarrow> real \<Rightarrow> real" where
  \<comment> \<open>line 63: \<^verbatim>\<open>v2l(vmin) if lmin is None else lmin\<close>\<close>
  "lin_lmin cspace_convert cm lmin vmin =
     (case lmin of None \<Rightarrow> v2l cspace_convert cm vmin | Some l \<Rightarrow> l)"

definition lin_lmax :: "converter \<Rightarrow> colormap_fn \<Rightarrow> real option \<Rightarrow> real \<Rightarrow> real" where
  \<comment> \<open>line 64: \<^verbatim>\<open>v2l(vmax) if lmax is None else lmax\<close>\<close>
  "lin_lmax cspace_convert cm lmax vmax =
     (case lmax of None \<Rightarrow> v2l cspace_convert cm vmax | Some l \<Rightarrow> l)"

definition linearize_targets ::
  "converter \<Rightarrow> colormap_fn \<Rightarrow> int \<Rightarrow> real option \<Rightarrow> real option \<Rightarrow> real \<Rightarrow> real
   \<Rightarrow> error + real list" where
  \<comment> \<open>lines 63-64: the sequence \<open>L\<close>\<close>
  "linearize_targets cspace_convert cm N lmin lmax vmin vmax =
     linspace (lin_lmin cspace_convert cm lmin vmin) (lin_lmax cspace_convert cm lmax vmax) N"

definition l2v :: "converter \<Rightarrow> solver \<Rightarrow> colormap_fn \<Rightarrow> real \<Rightarrow> real \<Rightarrow> real \<Rightarrow> error + real" where
  \<comment> \<open>lines 60-61: an exception of \<^verbatim>\<open>bisect\<close> is not caught\<close>
  "l2v cspace_convert bisect cm vmin vmax l = bisect (\<lambda>v. v2l cspace_convert cm v - l) vmin vmax"

definition linearize ::
  "converter \<Rightarrow> solver \<Rightarrow> colormap_fn \<Rightarrow> int \<Rightarrow> real option \<Rightarrow> real option \<Rightarrow> real \<Rightarrow> real
   \<Rightarrow> string option \<Rightarrow> error + outcome" where
  "linearize cspace_convert bisect cm N lmin lmax vmin vmax save =
     (case linearize_targets cspace_convert cm N lmin lmax vmin vmax of
        Inl e \<Rightarrow> Inl e
      | Inr L \<Rightarrow>
          (case collect (map (\<lambda>l. map_sum id cm (l2v cspace_convert bisect cm vmin vmax l)) L) of
             Inl e \<Rightarrow> Inl e
           | Inr carr \<Rightarrow> Inr (finish save carr)))"

subsection \<open>\<^verbatim>\<open>symmetrize\<close> (lines 72-119)\<close>

type_synonym warning = "string \<times> real"

definition sym_lmin :: "converter \<Rightarrow> colormap_fn \<Rightarrow> real option \<Rightarrow> real \<Rightarrow> real" where
  \<comment> \<open>line 81\<close>
  "sym_lmin cspace_convert cm lmin vmin =
     (case lmin of None \<Rightarrow> v2l cspace_convert cm vmin | Some l \<Rightarrow> l)"

definition sym_lmid :: "converter \<Rightarrow> colormap_fn \<Rightarrow> real option \<Rightarrow> real option \<Rightarrow> real" where
  \<comment> \<open>line 82\<close>
  "sym_lmid cspace_convert cm lmid vmid =
     (case lmid of
        None \<Rightarrow> v2l cspace_convert cm (case vmid of None \<Rightarrow> 0.5 | Some v \<Rightarrow> v)
      | Some l \<Rightarrow> l)"

definition sym_lmax :: "converter \<Rightarrow> colormap_fn \<Rightarrow> real option \<Rightarrow> real \<Rightarrow> real" where
  \<comment> \<open>line 83\<close>
  "sym_lmax cspace_convert cm lmax vmax =
     (case lmax of None \<Rightarrow> v2l cspace_convert cm vmax | Some l \<Rightarrow> l)"

definition sym_midpoint ::
  "converter \<Rightarrow> optimizer \<Rightarrow> colormap_fn \<Rightarrow> real \<Rightarrow> real \<Rightarrow> real option \<Rightarrow> real \<times> real" where
  \<comment> \<open>lines 88-92: the pair \<open>(vmid, lmid)\<close> after the search for the extremum\<close>
  "sym_midpoint cspace_convert minimize cm lmid lmax vmid =
     (case vmid of
        None \<Rightarrow>
          (let v = minimize (if lmax > lmid then v2l cspace_convert cm
                             else v2ml cspace_convert cm) 0.5
           in (v, v2l cspace_convert cm v))
      | Some v \<Rightarrow> (v, lmid))"

definition sym_targets :: "real \<Rightarrow> real \<Rightarrow> real \<Rightarrow> int \<Rightarrow> error + real list" where
  \<comment> \<open>lines 94-99: the sequence \<open>L\<close>\<close>
  "sym_targets lmin lmid lmax N =
     (if lmax > lmid then
        (let b = min lmin lmax
         in map_sum id absolute (linspace (- b) b N))
      else
        (let b = lmid - max lmin lmax
         in map_sum id (\<lambda>xs. map (\<lambda>x. lmid - x) (absolute xs)) (linspace (- b) b N)))"

definition l2vL :: "converter \<Rightarrow> solver \<Rightarrow> colormap_fn \<Rightarrow> real \<Rightarrow> real \<Rightarrow> real \<Rightarrow> real \<times> warning list" where
  \<comment> \<open>lines 101-106: the bare \<^verbatim>\<open>except\<close> catches whatever \<^verbatim>\<open>bisect\<close> raises\<close>
  "l2vL cspace_convert bisect cm vmin vmid l =
     (case bisect (\<lambda>v. v2l cspace_convert cm v - l) vmin vmid of
        Inr v \<Rightarrow> (v, [])
      | Inl e \<Rightarrow> (if l > 75 then 0.5 else 0.0,
                  [(''Warning: unable to solve for value in l2vL()'', l)]))"

definition l2vR :: "converter \<Rightarrow> solver \<Rightarrow> colormap_fn \<Rightarrow> real \<Rightarrow> real \<Rightarrow> real \<Rightarrow> real \<times> warning list" where
  \<comment> \<open>lines 107-112\<close>
  "l2vR cspace_convert bisect cm vmid vmax l =
     (case bisect (\<lambda>v. v2l cspace_convert cm v - l) vmid vmax of
        Inr v \<Rightarrow> (v, [])
      | Inl e \<Rightarrow> (if l > 75 then 0.5 else 1.0,
                  [(''Warning: unable to solve for value in l2vR()'', l)]))"

definition sym_carr ::
  "converter \<Rightarrow> solver \<Rightarrow> colormap_fn \<Rightarrow> int \<Rightarrow> real \<Rightarrow> real \<Rightarrow> real \<Rightarrow> real list
   \<Rightarrow> color list \<times> warning list" where
  \<comment> \<open>lines 114-115: the left comprehension runs first, then the right one; each call of
      \<open>l2vL\<close> or \<open>l2vR\<close> may print\<close>
  "sym_carr cspace_convert bisect cm N vmin vmid vmax L =
     (let left = map (l2vL cspace_convert bisect cm vmin vmid) (take (nat (N div 2)) L);
          right = map (l2vR cspace_convert bisect cm vmid vmax) (drop (nat (N div 2)) L)
      in (map (\<lambda>r. cm (fst r)) left @ map (\<lambda>r. cm (fst r)) right,
          concat (map snd left) @ concat (map snd right)))"

definition symmetrize ::
  "converter \<Rightarrow> solver \<Rightarrow> optimizer \<Rightarrow> colormap_fn \<Rightarrow> int
   \<Rightarrow> real option \<Rightarrow> real option \<Rightarrow> real option \<Rightarrow> real \<Rightarrow> real option \<Rightarrow> real
   \<Rightarrow> string option \<Rightarrow> error + outcome \<times> warning list" where
  "symmetrize cspace_convert bisect minimize cm N lmin lmid lmax vmin vmid vmax save =
     (let lmin_eff = sym_lmin cspace_convert cm lmin vmin;
          lmid_eff = sym_lmid cspace_convert cm lmid vmid;
          lmax_eff = sym_lmax cspace_convert cm lmax vmax
      in if (lmax_eff - lmid_eff) * (lmid_eff - lmin_eff) \<ge> 0.0 then Inl DivergenceError
         else
           (case sym_midpoint cspace_convert minimize cm lmid_eff lmax_eff vmid of
              (vmid_new, lmid_new) \<Rightarrow>
                (case sym_targets lmin_eff lmid_new lmax_eff N of
                   Inl e \<Rightarrow> Inl e
                 | Inr L \<Rightarrow>
                     (case sym_carr cspace_convert bisect cm N vmin vmid_new vmax L of
                        (carr, out) \<Rightarrow> Inr (finish save carr, out)))))"

subsection \<open>Predicates used in the statements\<close>

fun in_unit :: "fl \<Rightarrow> bool" where
  "in_unit (Fin x) = (0 \<le> x \<and> x \<le> 1)"
| "in_unit PInf = False"
| "in_unit NInf = False"
| "in_unit NaN = False"

definition in_unit_cube :: "fl_triple \<Rightarrow> bool" where
  "in_unit_cube t = (case t of (r, g, b) \<Rightarrow> in_unit r \<and> in_unit g \<and> in_unit b)"

definition in_unit_or_nan :: "fl_triple \<Rightarrow> bool" where
  "in_unit_or_nan t =
     (case t of (r, g, b) \<Rightarrow>
        (r = NaN \<or> in_unit r) \<and> (g = NaN \<or> in_unit g) \<and> (b = NaN \<or> in_unit b))"

definition has_nan :: "fl_triple \<Rightarrow> bool" where
  "has_nan t = (case t of (r, g, b) \<Rightarrow> r = NaN \<or> g = NaN \<or> b = NaN)"

section \<open>Properties\<close>

subsection \<open>The lightness probe\<close>

text \<open>
  C9. The lightness probe ignores its alpha argument: for every colour \<open>(r, g, b)\<close> and any
  two alpha values the result is the same, so it depends on the three colour channels only.
  The same holds when the colour of a map is unpacked into the probe, with or without a
  fourth component.
\<close>

theorem lightness_ignores_alpha:
  "lightness cspace_convert r g b a1 = lightness cspace_convert r g b a2
   \<and> lightness_star cspace_convert (RGBA r g b a1) = lightness_star cspace_convert (RGBA r g b a2)
   \<and> lightness_star cspace_convert (RGBA r g b a1) = lightness_star cspace_convert (RGB r g b)"
  by (simp add: lightness_def)


subsection \<open>The colour map builder\<close>

lemma clip1_unit_or_nan: "clip1 x 0 1 = NaN \<or> in_unit (clip1 x 0 1)"
  by (cases x) simp_all

lemma clip1_nan: "clip1 x 0 1 = NaN \<longleftrightarrow> x = NaN"
  by (cases x) simp_all

lemma clip_unit_or_nan: "in_unit_or_nan (clip t 0 1)"
  by (cases t) (simp add: clip_def in_unit_or_nan_def clip1_unit_or_nan)

lemma clip_unit: "\<not> has_nan t \<Longrightarrow> in_unit_cube (clip t 0 1)"
proof (cases t)
  case (fields r g b)
  assume "\<not> has_nan t"
  then have "r \<noteq> NaN" "g \<noteq> NaN" "b \<noteq> NaN" using fields by (simp_all add: has_nan_def)
  then have "in_unit (clip1 r 0 1)" "in_unit (clip1 g 0 1)" "in_unit (clip1 b 0 1)"
    using clip1_unit_or_nan clip1_nan by blast+
  then show ?thesis using fields by (simp add: clip_def in_unit_cube_def)
qed

lemma val_arith: "val (arith op x y) = op (val x) (val y)"
  by (simp add: arith_def)

lemma is_np_arith: "is_np (arith op x y) = (is_np x \<or> is_np y)"
  by (simp add: arith_def)

lemma div_num_nonzero: "val y \<noteq> 0 \<Longrightarrow> div_num x y = Inr (Fin (val x / val y))"
  by (simp add: div_num_def np_div_def py_div_def)

lemma convert_valid:
  assumes N: "2 \<le> N"
    and sat: "\<forall>sat. saturation = Some sat \<longrightarrow>
                0 < val (sat (real_of_int i / (real_of_int N - 1)))
                \<and> val (sat (real_of_int i / (real_of_int N - 1))) < 1"
  shows "\<exists>p. convert cc i N darkest lightest saturation hue
               = Inr (clip (cc p CAM02_UCS sRGB1) 0 1)"
proof -
  have d: "real_of_int N - 1 \<noteq> 0" using N by simp
  obtain s where s: "(case saturation of None \<Rightarrow> map_sum id PyNum (py_sqrt 0.5)
                      | Some sat \<Rightarrow> Inr (sat (real_of_int i / (real_of_int N - 1)))) = Inr s"
    and s1: "0 < val s" "val s < 1"
  proof (cases saturation)
    case None
    have "sqrt (1/2) < sqrt 1" by (rule real_sqrt_less_mono) simp
    then have "sqrt (1/2) < 1" by simp
    moreover have "0 < sqrt (1/2 :: real)" by simp
    ultimately show ?thesis using that[of "PyNum (sqrt (1/2))"] None by (simp add: py_sqrt_def)
  next
    case (Some sat)
    then show ?thesis using that sat by simp
  qed
  have "val s * val s < 1 * 1" using s1 by (intro mult_strict_mono) simp_all
  then have r: "0 < 1 - val s * val s" by simp
  then have r2: "sqrt (1 - val s * val s) \<noteq> 0" by simp
  show ?thesis
    using d s r r2
    by (auto simp add: convert_def py_div_def py_sqrt_def Let_def val_arith div_num_nonzero)
qed

lemma collect_all_Inr:
  "(\<And>r. r \<in> set rs \<Longrightarrow> \<exists>x. r = Inr x \<and> P x)
   \<Longrightarrow> \<exists>xs. collect rs = Inr xs \<and> length xs = length rs \<and> (\<forall>x \<in> set xs. P x)"
proof (induction rs)
  case Nil
  then show ?case by simp
next
  case (Cons r rs)
  from Cons.prems[of r] obtain x where x: "r = Inr x" "P x" by auto
  from Cons.IH Cons.prems obtain xs
    where xs: "collect rs = Inr xs" "length xs = length rs" "\<forall>x \<in> set xs. P x"
    by auto
  show ?case using x xs by simp
qed

text \<open>
  C6, as amended. For valid inputs (\<open>N \<ge> 2\<close>, and a saturation profile whose value at every
  sample fraction \<open>i / (N - 1)\<close> is in \<open>(0, 1)\<close>, or the default \<open>\<surd>0.5\<close>) \<^verbatim>\<open>colormap(N, ...)\<close>
  raises nothing and its output has exactly \<open>N\<close> samples, each a triple whose channels
  are numbers in \<open>[0, 1]\<close> or NaN. \<^verbatim>\<open>np.clip\<close> leaves a NaN unchanged, so a NaN that the
  colour-space conversion returns (for a point outside the gamut) reaches the output; when
  the conversion returns no NaN, every channel of every sample is in \<open>[0, 1]\<close>. The bounds on
  \<open>darkest\<close> and \<open>lightest\<close> are not needed.
\<close>

theorem colormap_in_range:
  assumes N: "2 \<le> N"
    and sat: "\<forall>sat. saturation = Some sat \<longrightarrow>
                (\<forall>i < nat N. 0 < val (sat (real i / (real_of_int N - 1)))
                            \<and> val (sat (real i / (real_of_int N - 1))) < 1)"
  shows "\<exists>cs. colormap cc N darkest lightest saturation hue = Inr cs
              \<and> int (length cs) = N
              \<and> (\<forall>t \<in> set cs. in_unit_or_nan t)
              \<and> ((\<forall>p. \<not> has_nan (cc p CAM02_UCS sRGB1)) \<longrightarrow> (\<forall>t \<in> set cs. in_unit_cube t))"
proof -
  let ?rs = "map (\<lambda>i. convert cc (int i) N darkest lightest saturation hue) [0..<nat N]"
  let ?P = "\<lambda>t. in_unit_or_nan t
              \<and> ((\<forall>p. \<not> has_nan (cc p CAM02_UCS sRGB1)) \<longrightarrow> in_unit_cube t)"
  have "\<exists>t. r = Inr t \<and> ?P t" if r: "r \<in> set ?rs" for r
  proof -
    from r obtain i where i: "i < nat N" and ri: "r = convert cc (int i) N darkest lightest saturation hue"
      by auto
    have "\<forall>sat. saturation = Some sat \<longrightarrow>
                0 < val (sat (real_of_int (int i) / (real_of_int N - 1)))
                \<and> val (sat (real_of_int (int i) / (real_of_int N - 1))) < 1"
      using sat i by simp
    from convert_valid[OF N this] obtain p
      where "r = Inr (clip (cc p CAM02_UCS sRGB1) 0 1)" unfolding ri by blast
    then show ?thesis using clip_unit_or_nan clip_unit by blast
  qed
  from collect_all_Inr[of ?rs ?P, OF this]
  obtain cs where cs: "collect ?rs = Inr cs" "length cs = length ?rs" "\<forall>t \<in> set cs. ?P t"
    by blast
  have 1: "colormap cc N darkest lightest saturation hue = Inr cs"
    using cs(1) by (simp add: colormap_def)
  have 2: "int (length cs) = N" using cs(2) N by simp
  have 3: "\<forall>t \<in> set cs. in_unit_or_nan t" using cs(3) by blast
  have 4: "(\<forall>p. \<not> has_nan (cc p CAM02_UCS sRGB1)) \<longrightarrow> (\<forall>t \<in> set cs. in_unit_cube t)"
    using cs(3) by blast
  show ?thesis by (intro exI[of _ cs] conjI 1 2 3 4)
qed

theorem colormap_in_range_witness:
  "\<exists>cs. colormap (\<lambda>p src dst. (Fin (1 / 2), Fin 2, Fin (- 1))) 3 (PyNum 0) (PyNum 100)
           (Some (\<lambda>f. PyNum (1 / 2))) None = Inr cs
      \<and> int (length cs) = 3 \<and> (\<forall>t \<in> set cs. in_unit_cube t)"
proof -
  let ?cc = "(\<lambda>p src dst. (Fin (1 / 2), Fin 2, Fin (- 1))) :: gamut_converter"
  let ?sat = "Some (\<lambda>f::real. PyNum (1 / 2))"
  have N: "(2::int) \<le> 3" by simp
  have sat: "\<forall>sat. ?sat = Some sat \<longrightarrow>
                (\<forall>i < nat 3. 0 < val (sat (real i / (real_of_int 3 - 1)))
                            \<and> val (sat (real i / (real_of_int 3 - 1))) < 1)"
    by auto
  have fin: "\<forall>p. \<not> has_nan (?cc p CAM02_UCS sRGB1)" by (simp add: has_nan_def)
  from colormap_in_range[where N = 3 and saturation = ?sat and cc = ?cc
      and darkest = "PyNum 0" and lightest = "PyNum 100" and hue = None, OF N sat]
  show ?thesis using fin by blast
qed

text \<open>
  The claim as stated fails when the conversion returns NaN: with a stand-in for the colour
  space library that answers NaN for every point but the origin, as the library does for a
  point outside the gamut, \<^verbatim>\<open>colormap(2, saturation=lambda f: 0.7, hue=lambda f: 4)\<close> has a
  second sample that is NaN in every channel.
\<close>

theorem colormap_in_range_counterexample:
  "colormap (\<lambda>p src dst. if p = (Fin 0, Fin 0, Fin 0) then (Fin 0, Fin 0, Fin 0)
                          else (NaN, NaN, NaN))
     2 (PyNum 0) (PyNum 100) (Some (\<lambda>f. PyNum (7 / 10))) (Some (\<lambda>f. 4))
     = Inr [(Fin 0, Fin 0, Fin 0), (NaN, NaN, NaN)]
   \<and> \<not> in_unit_cube (NaN, NaN, NaN)"
proof -
  let ?cc = "(\<lambda>p src dst. if p = (Fin 0, Fin 0, Fin 0) then (Fin 0, Fin 0, Fin 0)
                          else (NaN, NaN, NaN)) :: gamut_converter"
  let ?sat = "Some (\<lambda>f::real. PyNum (7 / 10))"
  let ?hue = "Some (\<lambda>f::real. 4 :: real)"
  have r: "\<not> (1 - 49 / 100 :: real) < 0" "sqrt (1 - 49 / 100 :: real) \<noteq> 0" by simp_all
  have c0: "convert ?cc (int 0) 2 (PyNum 0) (PyNum 100) ?sat ?hue = Inr (Fin 0, Fin 0, Fin 0)"
    using r
    by (simp add: convert_def py_div_def py_sqrt_def Let_def val_arith is_np_arith div_num_def
          clip_def)
  have c1: "convert ?cc (int 1) 2 (PyNum 0) (PyNum 100) ?sat ?hue = Inr (NaN, NaN, NaN)"
    using r
    by (simp add: convert_def py_div_def py_sqrt_def Let_def val_arith is_np_arith div_num_def
          clip_def)
  have l: "[0..<nat 2] = [0, 1]" by (simp add: upt_conv_Cons)
  have "colormap ?cc 2 (PyNum 0) (PyNum 100) ?sat ?hue = Inr [(Fin 0, Fin 0, Fin 0), (NaN, NaN, NaN)]"
    unfolding colormap_def l using c0 c1 by simp
  moreover have "\<not> in_unit_cube (NaN, NaN, NaN)" by (simp add: in_unit_cube_def)
  ultimately show ?thesis by blast
qed

text \<open>
  C5, as amended. The claim says that a saturation \<open>s \<ge> 1\<close>, in particular \<open>s = 1.0\<close>, makes
  the conversion raise the domain error of a negative radicand instead of producing NaN
  or Inf. For \<open>s > 1\<close> it does: \<open>1 - s\<^sup>2 < 0\<close> and \<^verbatim>\<open>sqrt\<close> raises
  \<^verbatim>\<open>ValueError('math domain error')\<close>, for a Python float and for a numpy scalar. For
  \<open>s = 1\<close> the radicand is \<open>0\<close> and \<^verbatim>\<open>sqrt\<close> returns \<open>0.0\<close>. If \<open>s\<close>, \<open>darkest\<close> and
  \<open>lightest\<close> are Python numbers the division raises \<^verbatim>\<open>ZeroDivisionError\<close>. If one of them
  is a numpy scalar the division returns an infinity or NaN and nothing is raised: the
  sample is whatever the conversion and \<^verbatim>\<open>np.clip\<close> make of a point with a chroma that is
  not finite. (\<open>N \<noteq> 1\<close>: otherwise the sample fraction \<open>f = i / (N - 1)\<close> itself is a
  division by zero.)
\<close>

theorem convert_saturation_ge_one:
  assumes N: "N \<noteq> 1"
    and s: "sat (real_of_int i / (real_of_int N - 1)) = s"
    and ge: "1 \<le> val s"
  shows "(1 < val s \<longrightarrow>
            convert cc i N darkest lightest (Some sat) hue
              = Inl (ValueError ''math domain error''))
       \<and> (val s = 1 \<and> \<not> is_np s \<and> \<not> is_np darkest \<and> \<not> is_np lightest \<longrightarrow>
            convert cc i N darkest lightest (Some sat) hue
              = Inl (ZeroDivisionError ''float division by zero''))
       \<and> (val s = 1 \<and> (is_np s \<or> is_np darkest \<or> is_np lightest) \<longrightarrow>
            (\<exists>Cp. (\<forall>x. Cp \<noteq> Fin x)
               \<and> convert cc i N darkest lightest (Some sat) hue
                   = Inr (clip (cc (Fin (val darkest
                                          + real_of_int i / (real_of_int N - 1)
                                            * (val lightest - val darkest)),
                                    fl_times Cp (cos (case hue of None \<Rightarrow> 0
                                       | Some h \<Rightarrow> h (real_of_int i / (real_of_int N - 1)))),
                                    fl_times Cp (sin (case hue of None \<Rightarrow> 0
                                       | Some h \<Rightarrow> h (real_of_int i / (real_of_int N - 1)))))
                                CAM02_UCS sRGB1) 0 1)))"
proof -
  let ?f = "real_of_int i / (real_of_int N - 1)"
  have d: "real_of_int N - 1 \<noteq> 0" using N by simp
  have gt: "1 < val s \<longrightarrow>
            convert cc i N darkest lightest (Some sat) hue
              = Inl (ValueError ''math domain error'')"
  proof
    assume "1 < val s"
    then have "1 * 1 < val s * val s" by (intro mult_strict_mono) simp_all
    then have "1 - val s * val s < 0" by simp
    then show "convert cc i N darkest lightest (Some sat) hue
              = Inl (ValueError ''math domain error'')"
      using d s by (simp add: convert_def py_div_def py_sqrt_def Let_def val_arith)
  qed
  have py: "val s = 1 \<and> \<not> is_np s \<and> \<not> is_np darkest \<and> \<not> is_np lightest \<longrightarrow>
            convert cc i N darkest lightest (Some sat) hue
              = Inl (ZeroDivisionError ''float division by zero'')"
    using d s
    by (simp add: convert_def py_div_def py_sqrt_def Let_def val_arith is_np_arith div_num_def)
  have np: "val s = 1 \<and> (is_np s \<or> is_np darkest \<or> is_np lightest) \<longrightarrow>
            (\<exists>Cp. (\<forall>x. Cp \<noteq> Fin x)
               \<and> convert cc i N darkest lightest (Some sat) hue
                   = Inr (clip (cc (Fin (val darkest + ?f * (val lightest - val darkest)),
                                    fl_times Cp (cos (case hue of None \<Rightarrow> 0 | Some h \<Rightarrow> h ?f)),
                                    fl_times Cp (sin (case hue of None \<Rightarrow> 0 | Some h \<Rightarrow> h ?f)))
                                CAM02_UCS sRGB1) 0 1))"
  proof
    assume a: "val s = 1 \<and> (is_np s \<or> is_np darkest \<or> is_np lightest)"
    let ?Jp = "val darkest + ?f * (val lightest - val darkest)"
    let ?Cp = "np_div (?Jp * 1) 0"
    have nf: "\<forall>x. ?Cp \<noteq> Fin x" by (simp add: np_div_def)
    have "convert cc i N darkest lightest (Some sat) hue
            = Inr (clip (cc (Fin ?Jp,
                             fl_times ?Cp (cos (case hue of None \<Rightarrow> 0 | Some h \<Rightarrow> h ?f)),
                             fl_times ?Cp (sin (case hue of None \<Rightarrow> 0 | Some h \<Rightarrow> h ?f)))
                         CAM02_UCS sRGB1) 0 1)"
      using d s a
      by (cases hue)
         (auto simp add: convert_def py_div_def py_sqrt_def Let_def val_arith is_np_arith
            div_num_def)
    with nf show "\<exists>Cp. (\<forall>x. Cp \<noteq> Fin x)
               \<and> convert cc i N darkest lightest (Some sat) hue
                   = Inr (clip (cc (Fin ?Jp,
                                    fl_times Cp (cos (case hue of None \<Rightarrow> 0 | Some h \<Rightarrow> h ?f)),
                                    fl_times Cp (sin (case hue of None \<Rightarrow> 0 | Some h \<Rightarrow> h ?f)))
                                CAM02_UCS sRGB1) 0 1)"
      by blast
  qed
  show ?thesis by (intro conjI gt py np)
qed

theorem convert_saturation_ge_one_witness:
  "convert (\<lambda>p src dst. p) 1 3 (PyNum 0) (PyNum 100) (Some (\<lambda>f. PyNum (1 + f))) None
     = Inl (ValueError ''math domain error'')
   \<and> convert (\<lambda>p src dst. p) 1 3 (PyNum 0) (PyNum 100) (Some (\<lambda>f. PyNum 1)) None
     = Inl (ZeroDivisionError ''float division by zero'')
   \<and> (\<exists>t. convert (\<lambda>p src dst. p) 1 3 (PyNum 0) (PyNum 100) (Some (\<lambda>f. NpNum 1)) None
          = Inr t)"
proof -
  have a: "(3::int) \<noteq> 1" by simp
  have b1: "(\<lambda>f::real. PyNum (1 + f)) (real_of_int 1 / (real_of_int 3 - 1)) = PyNum (3 / 2)"
    by simp
  have c1: "1 \<le> val (PyNum (3 / 2))" by simp
  have g1: "1 < val (PyNum (3 / 2))" by simp
  have b2: "(\<lambda>f::real. PyNum 1) (real_of_int 1 / (real_of_int 3 - 1)) = PyNum 1" by simp
  have c2: "1 \<le> val (PyNum 1)" by simp
  have g2: "val (PyNum 1) = 1 \<and> \<not> is_np (PyNum 1) \<and> \<not> is_np (PyNum 0) \<and> \<not> is_np (PyNum 100)"
    by simp
  have b3: "(\<lambda>f::real. NpNum 1) (real_of_int 1 / (real_of_int 3 - 1)) = NpNum 1" by simp
  have c3: "1 \<le> val (NpNum 1)" by simp
  have g3: "val (NpNum 1) = 1 \<and> (is_np (NpNum 1) \<or> is_np (PyNum 0) \<or> is_np (PyNum 100))"
    by simp
  have 1: "convert (\<lambda>p src dst. p) 1 3 (PyNum 0) (PyNum 100) (Some (\<lambda>f. PyNum (1 + f))) None
             = Inl (ValueError ''math domain error'')"
    using convert_saturation_ge_one[where N = 3 and i = 1 and sat = "\<lambda>f::real. PyNum (1 + f)"
      and s = "PyNum (3 / 2)" and cc = "\<lambda>p src dst. p" and darkest = "PyNum 0"
      and lightest = "PyNum 100" and hue = None, OF a b1 c1, THEN conjunct1, rule_format, OF g1] .
  have 2: "convert (\<lambda>p src dst. p) 1 3 (PyNum 0) (PyNum 100) (Some (\<lambda>f. PyNum 1)) None
             = Inl (ZeroDivisionError ''float division by zero'')"
    using convert_saturation_ge_one[where N = 3 and i = 1 and sat = "\<lambda>f::real. PyNum 1"
      and s = "PyNum 1" and cc = "\<lambda>p src dst. p" and darkest = "PyNum 0"
      and lightest = "PyNum 100" and hue = None, OF a b2 c2,
      THEN conjunct2, THEN conjunct1, rule_format, OF g2] .
  have 3: "\<exists>t. convert (\<lambda>p src dst. p) 1 3 (PyNum 0) (PyNum 100) (Some (\<lambda>f. NpNum 1)) None
             = Inr t"
    using convert_saturation_ge_one[where N = 3 and i = 1 and sat = "\<lambda>f::real. NpNum 1"
      and s = "NpNum 1" and cc = "\<lambda>p src dst. p" and darkest = "PyNum 0"
      and lightest = "PyNum 100" and hue = None, OF a b3 c3,
      THEN conjunct2, THEN conjunct2, rule_format, OF g3]
    by blast
  show ?thesis by (intro conjI 1 2 3)
qed

text \<open>
  The claim as stated fails at \<open>s = 1.0\<close>. \<^verbatim>\<open>convert(1, 2, saturation=lambda f: 1.0)\<close> has the
  radicand \<open>1 - 1 \<cdot> 1 = 0\<close>, which is not negative, and raises the division error, not a
  domain error. With \<^verbatim>\<open>saturation=lambda f: np.float64(1.0)\<close> nothing is raised: the chroma
  is \<open>100 / 0.0 = inf\<close> and, with the identity in place of the colour space library, the
  sample is \<open>(1, 1, nan)\<close>.
\<close>

theorem convert_saturation_one_counterexample:
  "convert (\<lambda>p src dst. p) 1 2 (PyNum 0) (PyNum 100) (Some (\<lambda>f. PyNum 1)) None
     = Inl (ZeroDivisionError ''float division by zero'')
   \<and> convert (\<lambda>p src dst. p) 1 2 (PyNum 0) (PyNum 100) (Some (\<lambda>f. PyNum 1)) None
     \<noteq> Inl (ValueError ''math domain error'')
   \<and> py_sqrt (1.0 - 1 * 1) = Inr 0
   \<and> convert (\<lambda>p src dst. p) 1 2 (PyNum 0) (PyNum 100) (Some (\<lambda>f. NpNum 1)) None
     = Inr (Fin 1, Fin 1, NaN)"
  by (simp add: convert_def py_div_def py_sqrt_def Let_def val_arith is_np_arith div_num_def
        np_div_def clip_def)

subsection \<open>The divergence check of \<^verbatim>\<open>symmetrize\<close>\<close>

lemma symmetrize_raises:
  "0 \<le> (sym_lmax cc cm lmax vmax - sym_lmid cc cm lmid vmid)
        * (sym_lmid cc cm lmid vmid - sym_lmin cc cm lmin vmin)
   \<Longrightarrow> symmetrize cc bisect minimize cm N lmin lmid lmax vmin vmid vmax save = Inl DivergenceError"
  by (simp add: symmetrize_def)

lemma sym_targets_not_divergence: "sym_targets lmin lmid lmax N \<noteq> Inl DivergenceError"
  by (simp add: sym_targets_def linspace_def DivergenceError_def Let_def)

lemma symmetrize_passes:
  assumes "(sym_lmax cc cm lmax vmax - sym_lmid cc cm lmid vmid)
        * (sym_lmid cc cm lmid vmid - sym_lmin cc cm lmin vmin) < 0"
  shows "symmetrize cc bisect minimize cm N lmin lmid lmax vmin vmid vmax save
           \<noteq> Inl DivergenceError"
  using assms sym_targets_not_divergence
  by (auto simp add: symmetrize_def Let_def split: prod.splits sum.splits)

text \<open>
  C1. With the effective lightnesses \<open>lmin\<close>, \<open>lmid\<close>, \<open>lmax\<close> (the arguments, or by default
  the lightness of \<open>cm\<close> at \<open>vmin\<close>, at \<open>vmid\<close> or \<open>0.5\<close>, and at \<open>vmax\<close>): when
  \<open>(lmax - lmid) \<cdot> (lmid - lmin) \<ge> 0\<close>, \<^verbatim>\<open>symmetrize\<close> raises the divergence error, and its
  result is that error alone: no colours and no output; when the product is negative it
  does not raise this error.
\<close>

theorem symmetrize_divergence:
  "(0 \<le> (sym_lmax cc cm lmax vmax - sym_lmid cc cm lmid vmid)
        * (sym_lmid cc cm lmid vmid - sym_lmin cc cm lmin vmin)
    \<longrightarrow> symmetrize cc bisect minimize cm N lmin lmid lmax vmin vmid vmax save
        = Inl DivergenceError)
   \<and> ((sym_lmax cc cm lmax vmax - sym_lmid cc cm lmid vmid)
        * (sym_lmid cc cm lmid vmid - sym_lmin cc cm lmin vmin) < 0
    \<longrightarrow> symmetrize cc bisect minimize cm N lmin lmid lmax vmin vmid vmax save
        \<noteq> Inl DivergenceError)"
  by (simp add: symmetrize_raises symmetrize_passes)

theorem symmetrize_divergence_witness:
  "symmetrize (\<lambda>t src dst. t)
      (\<lambda>f a b. Inl (ValueError ''f(a) and f(b) must have different signs''))
      (\<lambda>f x. x) (\<lambda>v. RGB v 0 0) 4 None None None 0 None 1 None = Inl DivergenceError
   \<and> symmetrize (\<lambda>t src dst. t)
      (\<lambda>f a b. Inl (ValueError ''f(a) and f(b) must have different signs''))
      (\<lambda>f x. x) (\<lambda>v. RGB \<bar>v - 1 / 2\<bar> 0 0) 4 None None None 0 None 1 None
      \<noteq> Inl DivergenceError"
proof -
  let ?cc = "(\<lambda>t src dst. t) :: converter"
  let ?up = "\<lambda>v::real. RGB v 0 0"
  let ?vee = "\<lambda>v::real. RGB \<bar>v - 1 / 2\<bar> 0 0"
  have up: "0 \<le> (sym_lmax ?cc ?up None 1 - sym_lmid ?cc ?up None None)
        * (sym_lmid ?cc ?up None None - sym_lmin ?cc ?up None 0)"
    by (simp add: sym_lmax_def sym_lmid_def sym_lmin_def v2l_def lightness_def)
  have vee: "(sym_lmax ?cc ?vee None 1 - sym_lmid ?cc ?vee None None)
        * (sym_lmid ?cc ?vee None None - sym_lmin ?cc ?vee None 0) < 0"
    by (simp add: sym_lmax_def sym_lmid_def sym_lmin_def v2l_def lightness_def)
  show ?thesis
    using up vee symmetrize_divergence[of ?cc ?up None 1 None None None 0]
      symmetrize_divergence[of ?cc ?vee None 1 None None None 0]
    by blast
qed


subsection \<open>Evenly spaced samples\<close>

lemma linspace_Inr:
  "0 \<le> num \<Longrightarrow> linspace start stop num = Inr (map (linspace_sample start stop num) [0..<nat num])"
  by (simp add: linspace_def)

lemma sample_first: "linspace_sample start stop num 0 = start"
  by (simp add: linspace_sample_def)

lemma sample_last: "2 \<le> num \<Longrightarrow> linspace_sample start stop num (nat num - 1) = stop"
proof -
  assume n: "2 \<le> num"
  then have "real (nat num - 1) = real_of_int (num - 1)" by simp
  then show ?thesis using n by (simp add: linspace_sample_def)
qed

lemma sample_step:
  "2 \<le> num \<Longrightarrow> linspace_sample start stop num (Suc i) - linspace_sample start stop num i
     = (stop - start) / real_of_int (num - 1)"
proof -
  assume n: "2 \<le> num"
  define c where "c = (stop - start) / real_of_int (num - 1)"
  have "(start + real (Suc i) * c) - (start + real i * c) = c"
    by (simp add: algebra_simps)
  then show ?thesis using n unfolding linspace_sample_def c_def by simp
qed

lemma sample_between:
  assumes "i < nat num"
  shows "min start stop \<le> linspace_sample start stop num i \<and> linspace_sample start stop num i \<le> max start stop"
proof (cases "num = 1")
  case True
  then show ?thesis by (simp add: linspace_sample_def)
next
  case False
  with assms have n: "2 \<le> num" by simp
  define t where "t = real i / real_of_int (num - 1)"
  have i: "real i \<le> real_of_int (num - 1)" using assms n by linarith
  have t: "0 \<le> t" "t \<le> 1" using n i by (simp_all add: t_def)
  have r: "linspace_sample start stop num i = start + t * (stop - start)"
    using False by (simp add: linspace_sample_def t_def)
  show ?thesis
  proof (cases "start \<le> stop")
    case True
    then have m: "min start stop = start" "max start stop = stop" by simp_all
    have a: "0 \<le> t * (stop - start)" using True t by simp
    have b: "t * (stop - start) \<le> stop - start"
      using mult_right_mono[of t 1 "stop - start"] True t by simp
    show ?thesis unfolding r m using a b by linarith
  next
    case False
    then have m: "min start stop = stop" "max start stop = start" by simp_all
    have a: "t * (stop - start) \<le> 0" using False t by (simp add: mult_nonneg_nonpos)
    have b: "stop - start \<le> t * (stop - start)"
      using mult_right_mono_neg[of t 1 "stop - start"] False t by simp
    show ?thesis unfolding r m using a b by linarith
  qed
qed


lemma sample_centred:
  assumes "2 \<le> num"
  shows "linspace_sample (- b) b num i = b * real_of_int (2 * int i - (num - 1)) / real_of_int (num - 1)"
proof -
  have d: "real_of_int (num - 1) \<noteq> 0" using assms by simp
  have "linspace_sample (- b) b num i = - b + real i * ((b + b) / real_of_int (num - 1))"
    using assms by (simp add: linspace_sample_def)
  also have "\<dots> = (- b * real_of_int (num - 1) + real i * (b + b)) / real_of_int (num - 1)"
    using d by (simp add: field_simps)
  also have "- b * real_of_int (num - 1) + real i * (b + b)
               = b * real_of_int (2 * int i - (num - 1))"
    by (simp add: algebra_simps)
  finally show ?thesis .
qed

lemma sample_mirror:
  assumes "i < nat num"
  shows "\<bar>linspace_sample (- b) b num (nat num - 1 - i)\<bar> = \<bar>linspace_sample (- b) b num i\<bar>"
proof (cases "num = 1")
  case True
  then show ?thesis using assms by (simp add: linspace_sample_def)
next
  case False
  with assms have n: "2 \<le> num" by simp
  have "2 * int (nat num - 1 - i) - (num - 1) = - (2 * int i - (num - 1))"
    using assms n by linarith
  then have "linspace_sample (- b) b num (nat num - 1 - i) = - linspace_sample (- b) b num i"
    by (simp only: sample_centred[OF n] of_int_minus mult_minus_right minus_divide_left)
  then show ?thesis by simp
qed

lemma abs_sample_even_lower:
  assumes n: "2 \<le> num" and ev: "even num"
  shows "\<bar>b\<bar> / real_of_int (num - 1) \<le> \<bar>linspace_sample (- b) b num i\<bar>"
proof -
  let ?k = "2 * int i - (num - 1)"
  have d: "0 < real_of_int (num - 1)" using n by simp
  have "odd ?k" using ev by simp
  then have "?k \<noteq> 0" by (metis even_zero)
  then have "1 \<le> \<bar>?k\<bar>" by linarith
  then have k: "1 \<le> \<bar>real_of_int ?k\<bar>" by (metis of_int_1_le_iff of_int_abs)
  have "\<bar>linspace_sample (- b) b num i\<bar> = \<bar>b\<bar> * \<bar>real_of_int ?k\<bar> / real_of_int (num - 1)"
    using d by (simp only: sample_centred[OF n] abs_divide abs_mult abs_of_pos)
  moreover have "\<bar>b\<bar> * 1 \<le> \<bar>b\<bar> * \<bar>real_of_int ?k\<bar>"
    using k by (intro mult_left_mono) simp_all
  ultimately show ?thesis using d by (simp add: divide_right_mono)
qed

lemma abs_sample_even_centre:
  assumes n: "2 \<le> num" and ev: "even num"
  shows "\<bar>linspace_sample (- b) b num (nat num div 2)\<bar> = \<bar>b\<bar> / real_of_int (num - 1)"
    and "\<bar>linspace_sample (- b) b num (nat num div 2 - 1)\<bar> = \<bar>b\<bar> / real_of_int (num - 1)"
proof -
  have d: "0 < real_of_int (num - 1)" using n by simp
  have h: "int (nat num div 2) = num div 2" using n by (simp add: zdiv_int)
  have e: "2 * (num div 2) = num" using ev by simp
  have k1: "2 * int (nat num div 2) - (num - 1) = 1" using h e by linarith
  have "1 \<le> nat num div 2" using n by linarith
  then have "int (nat num div 2 - 1) = num div 2 - 1" using h by linarith
  then have k2: "2 * int (nat num div 2 - 1) - (num - 1) = - 1" using e by linarith
  show "\<bar>linspace_sample (- b) b num (nat num div 2)\<bar> = \<bar>b\<bar> / real_of_int (num - 1)"
    unfolding sample_centred[OF n] k1 using d by simp
  show "\<bar>linspace_sample (- b) b num (nat num div 2 - 1)\<bar> = \<bar>b\<bar> / real_of_int (num - 1)"
    unfolding sample_centred[OF n] k2 using d by simp
qed

lemma sample_odd_centre:
  assumes n: "3 \<le> num" and od: "odd num"
  shows "linspace_sample (- b) b num (nat num div 2) = 0"
proof -
  have n2: "2 \<le> num" using n by simp
  have h: "int (nat num div 2) = num div 2" using n by (simp add: zdiv_int)
  have e: "2 * (num div 2) = num - 1" using od by (metis odd_two_times_div_two_succ add_diff_cancel_right')
  have k: "2 * int (nat num div 2) - (num - 1) = 0" using h e by linarith
  show ?thesis unfolding sample_centred[OF n2] k by simp
qed


lemma collect_Inr_nth:
  "collect rs = Inr xs \<Longrightarrow> length xs = length rs \<and> (\<forall>i<length rs. rs ! i = Inr (xs ! i))"
proof (induction rs arbitrary: xs)
  case Nil
  then show ?case by simp
next
  case (Cons r rs)
  then obtain x where r: "r = Inr x" by (cases r) simp_all
  with Cons.prems obtain ys where ys: "collect rs = Inr ys" "xs = x # ys"
    by (cases "collect rs") simp_all
  from Cons.IH[OF ys(1)] have ih: "length ys = length rs" "\<forall>i<length rs. rs ! i = Inr (ys ! i)"
    by simp_all
  show ?case using r ys(2) ih by (auto simp add: nth_Cons split: nat.splits)
qed


text \<open>
  C4. For every colour map and every sample count \<open>N \<ge> 0\<close> (a negative count is refused by
  \<^verbatim>\<open>np.linspace\<close>), the target sequence of \<^verbatim>\<open>linearize\<close> runs from \<open>lo\<close> to \<open>hi\<close>, where \<open>lo\<close>
  is the argument \<open>lmin\<close> when it is supplied and \<open>lightness(*cm(vmin))\<close> when it is not, and
  \<open>hi\<close> is the argument \<open>lmax\<close> when it is supplied and \<open>lightness(*cm(vmax))\<close> when it is not:
  exactly \<open>N\<close> values, the value of index \<open>i\<close> being \<open>lo + i (hi - lo) / (N - 1)\<close>, so that
  consecutive values are the same distance apart, all in the closed interval between \<open>lo\<close>
  and \<open>hi\<close>, the first one \<open>lo\<close> and (with at least two samples) the last one \<open>hi\<close>. Each
  colour that \<^verbatim>\<open>linearize\<close> returns is \<open>cm\<close> at the root found for the target of the same
  index.
\<close>

theorem linearize_targets_evenly_spaced:
  assumes N: "0 \<le> N"
    and lo: "lo = (case lmin of None \<Rightarrow> lightness_star cc (cm vmin) | Some l \<Rightarrow> l)"
    and hi: "hi = (case lmax of None \<Rightarrow> lightness_star cc (cm vmax) | Some l \<Rightarrow> l)"
  shows "\<exists>L. linearize_targets cc cm N lmin lmax vmin vmax = Inr L
            \<and> int (length L) = N
            \<and> (1 \<le> N \<longrightarrow> L ! 0 = lo)
            \<and> (2 \<le> N \<longrightarrow> L ! (nat N - 1) = hi)
            \<and> (1 \<le> N \<and> lmin = None \<longrightarrow> L ! 0 = lightness_star cc (cm vmin))
            \<and> (\<forall>l. 1 \<le> N \<and> lmin = Some l \<longrightarrow> L ! 0 = l)
            \<and> (2 \<le> N \<and> lmax = None \<longrightarrow> L ! (nat N - 1) = lightness_star cc (cm vmax))
            \<and> (\<forall>l. 2 \<le> N \<and> lmax = Some l \<longrightarrow> L ! (nat N - 1) = l)
            \<and> (\<forall>i < length L. 2 \<le> N \<longrightarrow>
                  L ! i = lo + real i * ((hi - lo) / real_of_int (N - 1)))
            \<and> (\<forall>i. Suc i < length L \<longrightarrow>
                  L ! Suc i - L ! i = (hi - lo) / real_of_int (N - 1))
            \<and> (\<forall>l \<in> set L. min lo hi \<le> l \<and> l \<le> max lo hi)
            \<and> (\<forall>out. linearize cc bisect cm N lmin lmax vmin vmax save = Inr out \<longrightarrow>
                  length (colors out) = length L
                  \<and> (\<forall>i < length L. \<exists>v. bisect (\<lambda>v. v2l cc cm v - L ! i) vmin vmax = Inr v
                                        \<and> colors out ! i = cm v))"
proof -
  have lo': "lin_lmin cc cm lmin vmin = lo"
    by (simp add: lo lin_lmin_def v2l_def split: option.splits)
  have hi': "lin_lmax cc cm lmax vmax = hi"
    by (simp add: hi lin_lmax_def v2l_def split: option.splits)
  let ?L = "map (linspace_sample lo hi N) [0..<nat N]"
  have L: "linearize_targets cc cm N lmin lmax vmin vmax = Inr ?L"
    using N by (simp add: linearize_targets_def linspace_Inr lo' hi')
  have len: "int (length ?L) = N" using N by simp
  have first: "1 \<le> N \<longrightarrow> ?L ! 0 = lo" by (simp add: sample_first)
  have last: "2 \<le> N \<longrightarrow> ?L ! (nat N - 1) = hi"
    using sample_last[of N lo hi] by simp
  have lo_none: "lmin = None \<Longrightarrow> lo = lightness_star cc (cm vmin)" by (simp add: lo)
  have lo_some: "\<And>l. lmin = Some l \<Longrightarrow> lo = l" by (simp add: lo)
  have hi_none: "lmax = None \<Longrightarrow> hi = lightness_star cc (cm vmax)" by (simp add: hi)
  have hi_some: "\<And>l. lmax = Some l \<Longrightarrow> hi = l" by (simp add: hi)
  have first_none: "1 \<le> N \<and> lmin = None \<longrightarrow> ?L ! 0 = lightness_star cc (cm vmin)"
    using first lo_none by metis
  have first_some: "\<forall>l. 1 \<le> N \<and> lmin = Some l \<longrightarrow> ?L ! 0 = l"
    using first lo_some by metis
  have last_none: "2 \<le> N \<and> lmax = None \<longrightarrow> ?L ! (nat N - 1) = lightness_star cc (cm vmax)"
    using last hi_none by metis
  have last_some: "\<forall>l. 2 \<le> N \<and> lmax = Some l \<longrightarrow> ?L ! (nat N - 1) = l"
    using last hi_some by metis
  have nth: "\<forall>i < length ?L. 2 \<le> N \<longrightarrow>
               ?L ! i = lo + real i * ((hi - lo) / real_of_int (N - 1))"
    by (simp add: linspace_sample_def)
  have step: "\<forall>i. Suc i < length ?L \<longrightarrow> ?L ! Suc i - ?L ! i = (hi - lo) / real_of_int (N - 1)"
  proof (intro allI impI)
    fix i assume i: "Suc i < length ?L"
    then have "2 \<le> N" by simp
    then show "?L ! Suc i - ?L ! i = (hi - lo) / real_of_int (N - 1)"
      using i sample_step[of N lo hi i] by simp
  qed
  have between: "\<forall>l \<in> set ?L. min lo hi \<le> l \<and> l \<le> max lo hi"
    using sample_between[of _ N lo hi] by auto
  have run: "\<forall>out. linearize cc bisect cm N lmin lmax vmin vmax save = Inr out \<longrightarrow>
                  length (colors out) = length ?L
                  \<and> (\<forall>i < length ?L. \<exists>v. bisect (\<lambda>v. v2l cc cm v - ?L ! i) vmin vmax = Inr v
                                        \<and> colors out ! i = cm v)"
  proof (intro allI impI)
    fix out assume out: "linearize cc bisect cm N lmin lmax vmin vmax save = Inr out"
    let ?rs = "map (\<lambda>l. map_sum id cm (l2v cc bisect cm vmin vmax l)) ?L"
    from out L obtain carr where carr: "collect ?rs = Inr carr" "out = finish save carr"
      by (auto simp add: linearize_def split: sum.splits)
    have c: "colors out = carr" using carr(2) by (simp add: finish_def split: option.splits)
    from collect_Inr_nth[OF carr(1)]
    have n: "length carr = length ?L" and e: "\<forall>i<length ?L. ?rs ! i = Inr (carr ! i)" by simp_all
    have "\<exists>v. bisect (\<lambda>v. v2l cc cm v - ?L ! i) vmin vmax = Inr v \<and> carr ! i = cm v"
      if i: "i < length ?L" for i
    proof -
      from e i have "map_sum id cm (l2v cc bisect cm vmin vmax (?L ! i)) = Inr (carr ! i)"
        by simp
      then show ?thesis
        by (cases "bisect (\<lambda>v. v2l cc cm v - ?L ! i) vmin vmax") (auto simp add: l2v_def)
    qed
    then show "length (colors out) = length ?L
                  \<and> (\<forall>i < length ?L. \<exists>v. bisect (\<lambda>v. v2l cc cm v - ?L ! i) vmin vmax = Inr v
                                        \<and> colors out ! i = cm v)"
      using c n by simp
  qed
  show ?thesis
    by (rule exI[of _ ?L])
       (intro conjI L len first last first_none first_some last_none last_some nth step
          between run)
qed

theorem linearize_targets_evenly_spaced_witness:
  "\<exists>L. linearize_targets (\<lambda>t src dst. t) (\<lambda>v. RGB (10 + 80 * v) 0 0) 3 None (Some 70) 0 1
         = Inr L
       \<and> int (length L) = 3 \<and> L ! 0 = 10 \<and> L ! 1 = 40 \<and> L ! 2 = 70 \<and> L ! 1 - L ! 0 = 30"
proof -
  let ?cc = "(\<lambda>t src dst. t) :: converter"
  let ?cm = "\<lambda>v::real. RGB (10 + 80 * v) 0 0"
  have N: "(0::int) \<le> 3" by simp
  have lo: "10 = (case None :: real option of None \<Rightarrow> lightness_star ?cc (?cm 0) | Some l \<Rightarrow> l)"
    by (simp add: lightness_def)
  have hi: "70 = (case Some (70::real) of None \<Rightarrow> lightness_star ?cc (?cm 1) | Some l \<Rightarrow> l)"
    by simp
  note t = linearize_targets_evenly_spaced[where N = 3 and lo = 10 and hi = 70 and cc = ?cc
      and cm = ?cm and lmin = None and lmax = "Some 70" and vmin = 0 and vmax = 1
      and bisect = "\<lambda>f a b. Inr a" and save = None, OF N lo hi]
  from t show ?thesis
  proof (elim exE conjE)
    fix L
    assume tg: "linearize_targets ?cc ?cm 3 None (Some 70) 0 1 = Inr L"
      and n: "int (length L) = 3"
      and first: "(1::int) \<le> 3 \<and> (None :: real option) = None
                    \<longrightarrow> L ! 0 = lightness_star ?cc (?cm 0)"
      and last: "\<forall>l. (2::int) \<le> 3 \<and> Some (70::real) = Some l \<longrightarrow> L ! (nat 3 - 1) = l"
      and nth: "\<forall>i < length L. (2::int) \<le> 3 \<longrightarrow>
                  L ! i = 10 + real i * ((70 - 10) / real_of_int (3 - 1))"
    have a: "L ! 0 = 10" using first by (simp add: lightness_def)
    have "nat 3 - 1 = (2::nat)" by simp
    then have c: "L ! 2 = 70" using last by simp
    have "(1::nat) < length L" using n by simp
    then have b: "L ! 1 = 40" using nth by simp
    have d: "L ! 1 - L ! 0 = 30" using a b by simp
    show ?thesis by (rule exI[of _ L]) (intro conjI tg n a b c d)
  qed
qed

subsection \<open>The target curve of \<^verbatim>\<open>symmetrize\<close>\<close>

lemma sym_targets_v:
  assumes "lmid < lmax" "0 \<le> N"
  shows "sym_targets lmin lmid lmax N
           = Inr (map (\<lambda>i. \<bar>linspace_sample (- min lmin lmax) (min lmin lmax) N i\<bar>) [0..<nat N])"
  using assms by (simp add: sym_targets_def Let_def linspace_Inr absolute_def comp_def)


text \<open>
  C2, as amended. In the v-shaped branch (\<open>lmax > lmid\<close>) the target sequence is
  \<open>L = |linspace(-b, b, N)|\<close> with \<open>b = min(lmin, lmax)\<close>. It does not depend on \<open>lmid\<close>, it is
  symmetric (\<open>L[i] = L[N - 1 - i]\<close>) and non-negative. Its minimum is \<open>0\<close>, at the centre
  index, only for an odd \<open>N \<ge> 3\<close>; for an even \<open>N \<ge> 2\<close> (the default \<open>N = 256\<close>) no sample
  falls on the vertex and the minimum is \<open>|b| / (N - 1)\<close>, at the indices \<open>N/2 - 1\<close> and
  \<open>N/2\<close>.
\<close>

theorem sym_targets_v_shape:
  assumes v: "lmid < lmax" and N: "0 \<le> N"
  shows "sym_targets lmin lmid lmax N
           = map_sum id absolute (linspace (- min lmin lmax) (min lmin lmax) N)
         \<and> (\<forall>lmid'. lmid' < lmax \<longrightarrow>
               sym_targets lmin lmid' lmax N = sym_targets lmin lmid lmax N)
         \<and> (\<exists>L. sym_targets lmin lmid lmax N = Inr L
               \<and> int (length L) = N
               \<and> (\<forall>i < length L. L ! i = L ! (length L - 1 - i))
               \<and> (\<forall>l \<in> set L. 0 \<le> l)
               \<and> (odd N \<and> 3 \<le> N \<longrightarrow> L ! (nat N div 2) = 0)
               \<and> (even N \<and> 2 \<le> N \<longrightarrow>
                     (\<forall>l \<in> set L. \<bar>min lmin lmax\<bar> / real_of_int (N - 1) \<le> l)
                     \<and> L ! (nat N div 2) = \<bar>min lmin lmax\<bar> / real_of_int (N - 1)
                     \<and> L ! (nat N div 2 - 1) = \<bar>min lmin lmax\<bar> / real_of_int (N - 1)))"
proof -
  let ?b = "min lmin lmax"
  let ?L = "map (\<lambda>i. \<bar>linspace_sample (- ?b) ?b N i\<bar>) [0..<nat N]"
  have def: "sym_targets lmin lmid lmax N = map_sum id absolute (linspace (- ?b) ?b N)"
    using v by (simp add: sym_targets_def Let_def)
  have indep: "\<forall>lmid'. lmid' < lmax \<longrightarrow>
               sym_targets lmin lmid' lmax N = sym_targets lmin lmid lmax N"
    using v by (simp add: sym_targets_def)
  have L: "sym_targets lmin lmid lmax N = Inr ?L" by (rule sym_targets_v[OF v N])
  have len: "int (length ?L) = N" using N by simp
  have mirror: "\<forall>i < length ?L. ?L ! i = ?L ! (length ?L - 1 - i)"
    using sample_mirror[of _ N ?b] by simp
  have nonneg: "\<forall>l \<in> set ?L. 0 \<le> l" by auto
  have odd: "odd N \<and> 3 \<le> N \<longrightarrow> ?L ! (nat N div 2) = 0"
  proof
    assume a: "odd N \<and> 3 \<le> N"
    then have "nat N div 2 < nat N" by linarith
    then show "?L ! (nat N div 2) = 0" using a sample_odd_centre[of N ?b] by simp
  qed
  have even: "even N \<and> 2 \<le> N \<longrightarrow>
                     (\<forall>l \<in> set ?L. \<bar>?b\<bar> / real_of_int (N - 1) \<le> l)
                     \<and> ?L ! (nat N div 2) = \<bar>?b\<bar> / real_of_int (N - 1)
                     \<and> ?L ! (nat N div 2 - 1) = \<bar>?b\<bar> / real_of_int (N - 1)"
  proof
    assume a: "even N \<and> 2 \<le> N"
    then have i: "nat N div 2 < nat N" "nat N div 2 - 1 < nat N" by linarith+
    have "\<forall>l \<in> set ?L. \<bar>?b\<bar> / real_of_int (N - 1) \<le> l"
      using a abs_sample_even_lower[of N ?b] by auto
    moreover have "?L ! (nat N div 2) = \<bar>?b\<bar> / real_of_int (N - 1)"
      using a i(1) abs_sample_even_centre(1)[of N ?b] by simp
    moreover have "?L ! (nat N div 2 - 1) = \<bar>?b\<bar> / real_of_int (N - 1)"
      using a i(2) abs_sample_even_centre(2)[of N ?b] by simp
    ultimately show "(\<forall>l \<in> set ?L. \<bar>?b\<bar> / real_of_int (N - 1) \<le> l)
                     \<and> ?L ! (nat N div 2) = \<bar>?b\<bar> / real_of_int (N - 1)
                     \<and> ?L ! (nat N div 2 - 1) = \<bar>?b\<bar> / real_of_int (N - 1)"
      by blast
  qed
  have ex: "\<exists>L. sym_targets lmin lmid lmax N = Inr L
               \<and> int (length L) = N
               \<and> (\<forall>i < length L. L ! i = L ! (length L - 1 - i))
               \<and> (\<forall>l \<in> set L. 0 \<le> l)
               \<and> (odd N \<and> 3 \<le> N \<longrightarrow> L ! (nat N div 2) = 0)
               \<and> (even N \<and> 2 \<le> N \<longrightarrow>
                     (\<forall>l \<in> set L. \<bar>min lmin lmax\<bar> / real_of_int (N - 1) \<le> l)
                     \<and> L ! (nat N div 2) = \<bar>min lmin lmax\<bar> / real_of_int (N - 1)
                     \<and> L ! (nat N div 2 - 1) = \<bar>min lmin lmax\<bar> / real_of_int (N - 1))"
    by (rule exI[of _ ?L]) (intro conjI L len mirror nonneg odd even)
  show ?thesis
    by (intro conjI def indep ex)
qed

theorem sym_targets_v_shape_witness:
  "sym_targets 60 30 90 4 = map_sum id absolute (linspace (- 60) 60 4)
   \<and> sym_targets 60 0 90 4 = sym_targets 60 30 90 4
   \<and> (\<exists>L. sym_targets 60 30 90 4 = Inr L \<and> int (length L) = 4
          \<and> L ! 2 = 20 \<and> L ! 1 = 20)"
proof -
  have v: "(30::real) < 90" and N: "(0::int) \<le> 4" by simp_all
  note t = sym_targets_v_shape[OF v N, of 60]
  have b: "min (60::real) 90 = 60" by simp
  have h: "nat 4 div 2 = (2::nat)" "nat 4 div 2 - 1 = (1::nat)" by simp_all
  have q: "\<bar>60::real\<bar> / real_of_int (4 - 1) = 20" by simp
  have 1: "sym_targets 60 30 90 4 = map_sum id absolute (linspace (- 60) 60 4)"
    using t[THEN conjunct1] unfolding b .
  have z: "(0::real) < 90" by simp
  have 2: "sym_targets 60 0 90 4 = sym_targets 60 30 90 4"
    using t[THEN conjunct2, THEN conjunct1, rule_format, OF z] .
  from t[THEN conjunct2, THEN conjunct2]
  obtain L where L1: "sym_targets 60 30 90 4 = Inr L" and L2: "int (length L) = 4"
    and L3: "even (4::int) \<and> (2::int) \<le> 4 \<longrightarrow>
       (\<forall>l \<in> set L. \<bar>min 60 90\<bar> / real_of_int (4 - 1) \<le> l)
       \<and> L ! (nat 4 div 2) = \<bar>min 60 90\<bar> / real_of_int (4 - 1)
       \<and> L ! (nat 4 div 2 - 1) = \<bar>min 60 90\<bar> / real_of_int (4 - 1)"
    by (elim exE conjE)
  have e: "even (4::int) \<and> (2::int) \<le> 4" by simp
  note c = L3[rule_format, OF e]
  have 3: "L ! 2 = 20" using c[THEN conjunct2, THEN conjunct1] unfolding b h q .
  have 4: "L ! 1 = 20" using c[THEN conjunct2, THEN conjunct2] unfolding b q by simp
  show ?thesis
    by (intro conjI 1 2 exI[of _ L] L1 L2 3 4)
qed


text \<open>
  The claim as stated (minimum \<open>0\<close> at the centre index) fails for an even \<open>N\<close>: with
  \<open>lmin = 60\<close>, \<open>lmid = 30\<close>, \<open>lmax = 90\<close> and \<open>N = 4\<close> the targets are \<open>60, 20, 20, 60\<close>.
\<close>

theorem sym_targets_v_shape_counterexample:
  "sym_targets 60 30 90 4 = Inr [60, 20, 20, 60]
   \<and> [60, 20, 20, 60 :: real] ! (4 div 2) \<noteq> 0
   \<and> (0::real) \<notin> set [60, 20, 20, 60]"
  by (simp add: sym_targets_def linspace_def linspace_sample_def absolute_def Let_def upt_conv_Cons)


subsection \<open>The two halves of \<^verbatim>\<open>symmetrize\<close>\<close>

lemma sym_targets_Inr:
  assumes "0 \<le> N"
  shows "\<exists>L. sym_targets lmin lmid lmax N = Inr L \<and> length L = nat N"
  using assms by (simp add: sym_targets_def Let_def linspace_Inr absolute_def)

lemma length_sym_carr:
  "length (fst (sym_carr cc bisect cm N vmin vmid vmax L)) = length L"
  by (simp add: sym_carr_def Let_def)

lemma symmetrize_unfold:
  assumes "lmin_eff = sym_lmin cc cm lmin vmin"
    and "lmid_eff = sym_lmid cc cm lmid vmid"
    and "lmax_eff = sym_lmax cc cm lmax vmax"
    and "(lmax_eff - lmid_eff) * (lmid_eff - lmin_eff) < 0"
    and "sym_midpoint cc minimize cm lmid_eff lmax_eff vmid = (vmid_new, lmid_new)"
    and "sym_targets lmin_eff lmid_new lmax_eff N = Inr L"
  shows "symmetrize cc bisect minimize cm N lmin lmid lmax vmin vmid vmax save
           = Inr (finish save (fst (sym_carr cc bisect cm N vmin vmid_new vmax L)),
                  snd (sym_carr cc bisect cm N vmin vmid_new vmax L))"
  using assms by (simp add: symmetrize_def Let_def split: prod.splits)

lemma colors_finish: "colors (finish save carr) = carr"
  by (simp add: finish_def split: option.splits)


lemma l2vL_found:
  "bisect (\<lambda>x. v2l cc cm x - l) vmin vmid = Inr v \<Longrightarrow> l2vL cc bisect cm vmin vmid l = (v, [])"
  by (simp add: l2vL_def)

lemma l2vR_found:
  "bisect (\<lambda>x. v2l cc cm x - l) vmid vmax = Inr v \<Longrightarrow> l2vR cc bisect cm vmid vmax l = (v, [])"
  by (simp add: l2vR_def)

lemma l2vL_failed:
  "bisect (\<lambda>x. v2l cc cm x - l) vmin vmid = Inl e \<Longrightarrow>
   l2vL cc bisect cm vmin vmid l
     = (if l > 75 then 0.5 else 0.0, [(''Warning: unable to solve for value in l2vL()'', l)])"
  by (simp add: l2vL_def)

lemma l2vR_failed:
  "bisect (\<lambda>x. v2l cc cm x - l) vmid vmax = Inl e \<Longrightarrow>
   l2vR cc bisect cm vmid vmax l
     = (if l > 75 then 0.5 else 1.0, [(''Warning: unable to solve for value in l2vR()'', l)])"
  by (simp add: l2vR_def)

lemma sym_carr_nth:
  assumes "i < length L"
  shows "fst (sym_carr cc bisect cm N vmin vmid vmax L) ! i
           = (if i < nat (N div 2) then cm (fst (l2vL cc bisect cm vmin vmid (L ! i)))
              else cm (fst (l2vR cc bisect cm vmid vmax (L ! i))))"
proof (cases "i < nat (N div 2)")
  case True
  then show ?thesis using assms by (simp add: sym_carr_def Let_def nth_append)
next
  case False
  then have "min (length L) (nat (N div 2)) = nat (N div 2)" using assms by simp
  then show ?thesis using False assms by (simp add: sym_carr_def Let_def nth_append)
qed

lemma sym_carr_log:
  assumes "i < length L"
  shows "set (snd (if i < nat (N div 2) then l2vL cc bisect cm vmin vmid (L ! i)
                   else l2vR cc bisect cm vmid vmax (L ! i)))
           \<subseteq> set (snd (sym_carr cc bisect cm N vmin vmid vmax L))"
proof (cases "i < nat (N div 2)")
  case True
  then have "L ! i \<in> set (take (nat (N div 2)) L)"
    using assms by (metis in_set_conv_nth length_take min_less_iff_conj nth_take)
  then show ?thesis using True by (auto simp add: sym_carr_def Let_def)
next
  case False
  then have "L ! i = drop (nat (N div 2)) L ! (i - nat (N div 2))" using assms by simp
  moreover have "i - nat (N div 2) < length (drop (nat (N div 2)) L)" using False assms by simp
  ultimately have "L ! i \<in> set (drop (nat (N div 2)) L)" by (metis nth_mem)
  then show ?thesis using False by (auto simp add: sym_carr_def Let_def)
qed

text \<open>
  C7. For every even \<open>N \<ge> 0\<close> on which the divergence check passes, \<^verbatim>\<open>symmetrize\<close> solves
  the first \<open>N/2\<close> targets (indices \<open>0 .. N/2 - 1\<close>) over the bracket \<open>[vmin, vmid]\<close> and the
  other \<open>N/2\<close> targets (indices \<open>N/2 .. N - 1\<close>) over \<open>[vmid, vmax]\<close>, where \<open>vmid\<close> is the
  midpoint after the search; its result is the colours of the left half followed by those
  of the right half, \<open>N\<close> in total.
\<close>

theorem symmetrize_halves:
  assumes ev: "even N" and N: "0 \<le> N"
    and lmin_eff: "lmin_eff = sym_lmin cc cm lmin vmin"
    and lmid_eff: "lmid_eff = sym_lmid cc cm lmid vmid"
    and lmax_eff: "lmax_eff = sym_lmax cc cm lmax vmax"
    and check: "(lmax_eff - lmid_eff) * (lmid_eff - lmin_eff) < 0"
    and mid: "sym_midpoint cc minimize cm lmid_eff lmax_eff vmid = (vmid_new, lmid_new)"
  shows "\<exists>L left right out.
           sym_targets lmin_eff lmid_new lmax_eff N = Inr L \<and> int (length L) = N
         \<and> left = map (\<lambda>l. cm (fst (l2vL cc bisect cm vmin vmid_new l))) (take (nat (N div 2)) L)
         \<and> right = map (\<lambda>l. cm (fst (l2vR cc bisect cm vmid_new vmax l))) (drop (nat (N div 2)) L)
         \<and> symmetrize cc bisect minimize cm N lmin lmid lmax vmin vmid vmax save
             = Inr (finish save (left @ right), out)
         \<and> int (length left) = N div 2 \<and> int (length right) = N div 2
         \<and> int (length (left @ right)) = N
         \<and> (\<forall>i < length left. \<forall>v.
               bisect (\<lambda>x. v2l cc cm x - L ! i) vmin vmid_new = Inr v \<longrightarrow> left ! i = cm v)
         \<and> (\<forall>i < length right. \<forall>v.
               bisect (\<lambda>x. v2l cc cm x - L ! (nat (N div 2) + i)) vmid_new vmax = Inr v
               \<longrightarrow> right ! i = cm v)"
proof -
  from sym_targets_Inr[OF N] obtain L
    where L: "sym_targets lmin_eff lmid_new lmax_eff N = Inr L" and len: "length L = nat N" by blast
  let ?h = "nat (N div 2)"
  let ?left = "map (\<lambda>l. cm (fst (l2vL cc bisect cm vmin vmid_new l))) (take ?h L)"
  let ?right = "map (\<lambda>l. cm (fst (l2vR cc bisect cm vmid_new vmax l))) (drop ?h L)"
  let ?out = "snd (sym_carr cc bisect cm N vmin vmid_new vmax L)"
  have carr: "fst (sym_carr cc bisect cm N vmin vmid_new vmax L) = ?left @ ?right"
    by (simp add: sym_carr_def Let_def comp_def)
  have run: "symmetrize cc bisect minimize cm N lmin lmid lmax vmin vmid vmax save
               = Inr (finish save (?left @ ?right), ?out)"
    using symmetrize_unfold[OF lmin_eff lmid_eff lmax_eff check mid L] carr by simp
  have lenL: "int (length L) = N" using len N by simp
  have half: "2 * (N div 2) = N" using ev by simp
  have h: "?h \<le> length L" using len N by linarith
  have l1: "int (length ?left) = N div 2" using h N by simp
  have l2: "int (length ?right) = N div 2" using len N half by simp
  have l3: "int (length (?left @ ?right)) = N" using len N by simp
  have a: "\<forall>i < length ?left. \<forall>v.
               bisect (\<lambda>x. v2l cc cm x - L ! i) vmin vmid_new = Inr v \<longrightarrow> ?left ! i = cm v"
    by (simp add: l2vL_found)
  have b: "\<forall>i < length ?right. \<forall>v.
               bisect (\<lambda>x. v2l cc cm x - L ! (?h + i)) vmid_new vmax = Inr v
               \<longrightarrow> ?right ! i = cm v"
    by (simp add: l2vR_found)
  show ?thesis
    by (rule exI[of _ L], rule exI[of _ ?left], rule exI[of _ ?right], rule exI[of _ ?out])
       (intro conjI L lenL refl run l1 l2 l3 a b)
qed


text \<open>
  C3, as amended. When the root finder fails for the target \<open>l\<close> of sample \<open>i\<close>,
  \<^verbatim>\<open>symmetrize\<close> still returns all \<open>N\<close> colours: sample \<open>i\<close> is \<open>cm\<close> at the fallback value,
  \<open>0.5\<close> if \<open>l > 75\<close> and otherwise the constant \<open>0.0\<close> in the left half and the constant \<open>1.0\<close>
  in the right half, which is the outer end of the bracket only when \<open>vmin = 0.0\<close> and
  \<open>vmax = 1.0\<close> (the defaults); a warning that names the half (\<^verbatim>\<open>l2vL()\<close> or \<^verbatim>\<open>l2vR()\<close>) and
  \<open>l\<close> is printed; and every sample whose root is found is \<open>cm\<close> at that root.
\<close>

theorem symmetrize_fallback:
  assumes N: "0 \<le> N"
    and lmin_eff: "lmin_eff = sym_lmin cc cm lmin vmin"
    and lmid_eff: "lmid_eff = sym_lmid cc cm lmid vmid"
    and lmax_eff: "lmax_eff = sym_lmax cc cm lmax vmax"
    and check: "(lmax_eff - lmid_eff) * (lmid_eff - lmin_eff) < 0"
    and mid: "sym_midpoint cc minimize cm lmid_eff lmax_eff vmid = (vmid_new, lmid_new)"
    and L: "sym_targets lmin_eff lmid_new lmax_eff N = Inr L"
    and i: "i < length L"
    and fails: "if i < nat (N div 2)
                then bisect (\<lambda>x. v2l cc cm x - L ! i) vmin vmid_new = Inl e
                else bisect (\<lambda>x. v2l cc cm x - L ! i) vmid_new vmax = Inl e"
  shows "\<exists>carr out.
           symmetrize cc bisect minimize cm N lmin lmid lmax vmin vmid vmax save
             = Inr (finish save carr, out)
         \<and> int (length carr) = N
         \<and> carr ! i = cm (if L ! i > 75 then 0.5 else if i < nat (N div 2) then 0.0 else 1.0)
         \<and> (vmin = 0.0 \<and> vmax = 1.0 \<longrightarrow>
               carr ! i = cm (if L ! i > 75 then 0.5 else if i < nat (N div 2) then vmin else vmax))
         \<and> (if i < nat (N div 2)
             then (''Warning: unable to solve for value in l2vL()'', L ! i)
             else (''Warning: unable to solve for value in l2vR()'', L ! i)) \<in> set out
         \<and> (\<forall>j < length L. \<forall>v.
               (if j < nat (N div 2)
                then bisect (\<lambda>x. v2l cc cm x - L ! j) vmin vmid_new
                else bisect (\<lambda>x. v2l cc cm x - L ! j) vmid_new vmax) = Inr v
               \<longrightarrow> carr ! j = cm v)"
proof -
  let ?h = "nat (N div 2)"
  let ?carr = "fst (sym_carr cc bisect cm N vmin vmid_new vmax L)"
  let ?out = "snd (sym_carr cc bisect cm N vmin vmid_new vmax L)"
  have run: "symmetrize cc bisect minimize cm N lmin lmid lmax vmin vmid vmax save
               = Inr (finish save ?carr, ?out)"
    by (rule symmetrize_unfold[OF lmin_eff lmid_eff lmax_eff check mid L])
  from sym_targets_Inr[OF N, of lmin_eff lmid_new lmax_eff] L have "length L = nat N" by simp
  then have len: "int (length ?carr) = N" using N by (simp add: length_sym_carr)
  have sample: "?carr ! i = cm (if L ! i > 75 then 0.5 else if i < ?h then 0.0 else 1.0)"
  proof (cases "i < ?h")
    case True
    with fails have "bisect (\<lambda>x. v2l cc cm x - L ! i) vmin vmid_new = Inl e" by simp
    then have f: "l2vL cc bisect cm vmin vmid_new (L ! i)
        = (if L ! i > 75 then 0.5 else 0.0,
           [(''Warning: unable to solve for value in l2vL()'', L ! i)])"
      by (simp add: l2vL_def)
    show ?thesis using True i f by (simp add: sym_carr_nth)
  next
    case False
    with fails have "bisect (\<lambda>x. v2l cc cm x - L ! i) vmid_new vmax = Inl e" by simp
    then have f: "l2vR cc bisect cm vmid_new vmax (L ! i)
        = (if L ! i > 75 then 0.5 else 1.0,
           [(''Warning: unable to solve for value in l2vR()'', L ! i)])"
      by (simp add: l2vR_def)
    show ?thesis using False i f by (simp add: sym_carr_nth)
  qed
  have dflt: "vmin = 0.0 \<and> vmax = 1.0 \<longrightarrow>
               ?carr ! i = cm (if L ! i > 75 then 0.5 else if i < ?h then vmin else vmax)"
  proof
    assume a: "vmin = 0.0 \<and> vmax = 1.0"
    show "?carr ! i = cm (if L ! i > 75 then 0.5 else if i < ?h then vmin else vmax)"
      unfolding sample using a by simp
  qed
  have warn: "(if i < ?h
             then (''Warning: unable to solve for value in l2vL()'', L ! i)
             else (''Warning: unable to solve for value in l2vR()'', L ! i)) \<in> set ?out"
  proof (cases "i < ?h")
    case True
    with fails have "bisect (\<lambda>x. v2l cc cm x - L ! i) vmin vmid_new = Inl e" by simp
    then have f: "l2vL cc bisect cm vmin vmid_new (L ! i)
        = (if L ! i > 75 then 0.5 else 0.0,
           [(''Warning: unable to solve for value in l2vL()'', L ! i)])"
      by (simp add: l2vL_def)
    show ?thesis
      using True f sym_carr_log[OF i, of N cc bisect cm vmin vmid_new vmax] by simp
  next
    case False
    with fails have "bisect (\<lambda>x. v2l cc cm x - L ! i) vmid_new vmax = Inl e" by simp
    then have f: "l2vR cc bisect cm vmid_new vmax (L ! i)
        = (if L ! i > 75 then 0.5 else 1.0,
           [(''Warning: unable to solve for value in l2vR()'', L ! i)])"
      by (simp add: l2vR_def)
    show ?thesis
      using False f sym_carr_log[OF i, of N cc bisect cm vmin vmid_new vmax] by simp
  qed
  have others: "\<forall>j < length L. \<forall>v.
               (if j < ?h
                then bisect (\<lambda>x. v2l cc cm x - L ! j) vmin vmid_new
                else bisect (\<lambda>x. v2l cc cm x - L ! j) vmid_new vmax) = Inr v
               \<longrightarrow> ?carr ! j = cm v"
    by (simp add: sym_carr_nth l2vL_found l2vR_found)
  show ?thesis
    by (rule exI[of _ ?carr], rule exI[of _ ?out]) (intro conjI run len sample dflt warn others)
qed

text \<open>
  C10. When \<open>vmid\<close> is not supplied, a supplied \<open>lmid\<close> reaches the result through the
  divergence check and the choice between minimising and maximising only: two values of
  \<open>lmid\<close> on which both decisions agree give the same result, hence the same target curve.
  The midpoint lightness used afterwards is the lightness of \<open>cm\<close> at the optimiser's
  result, whatever was supplied.
\<close>

theorem symmetrize_supplied_lmid:
  assumes lmin_eff: "lmin_eff = sym_lmin cc cm lmin vmin"
    and lmax_eff: "lmax_eff = sym_lmax cc cm lmax vmax"
    and same_check: "(0 \<le> (lmax_eff - a) * (a - lmin_eff)) = (0 \<le> (lmax_eff - b) * (b - lmin_eff))"
    and same_shape: "(a < lmax_eff) = (b < lmax_eff)"
  shows "symmetrize cc bisect minimize cm N lmin (Some a) lmax vmin None vmax save
           = symmetrize cc bisect minimize cm N lmin (Some b) lmax vmin None vmax save
         \<and> sym_midpoint cc minimize cm a lmax_eff None
             = (minimize (if a < lmax_eff then v2l cc cm else v2ml cc cm) 0.5,
                v2l cc cm (minimize (if a < lmax_eff then v2l cc cm else v2ml cc cm) 0.5))
         \<and> sym_midpoint cc minimize cm a lmax_eff None = sym_midpoint cc minimize cm b lmax_eff None"
proof -
  have m: "sym_midpoint cc minimize cm a lmax_eff None
             = (minimize (if a < lmax_eff then v2l cc cm else v2ml cc cm) 0.5,
                v2l cc cm (minimize (if a < lmax_eff then v2l cc cm else v2ml cc cm) 0.5))"
    by (simp add: sym_midpoint_def Let_def)
  have e: "sym_midpoint cc minimize cm a lmax_eff None = sym_midpoint cc minimize cm b lmax_eff None"
    using same_shape by (simp add: sym_midpoint_def Let_def)
  have "symmetrize cc bisect minimize cm N lmin (Some a) lmax vmin None vmax save
           = symmetrize cc bisect minimize cm N lmin (Some b) lmax vmin None vmax save"
    using same_check e unfolding lmin_eff lmax_eff
    by (simp add: symmetrize_def sym_lmid_def Let_def)
  then show ?thesis using m e by simp
qed


lemma vee_targets:
  "sym_targets (1 / 2) 0 (1 / 2) 4 = Inr [1 / 2, 1 / 6, 1 / 6, 1 / 2]"
  by (simp add: sym_targets_def linspace_def linspace_sample_def absolute_def Let_def
        upt_conv_Cons)

theorem symmetrize_fallback_witness:
  "\<exists>carr out.
     symmetrize (\<lambda>t src dst. t)
       (\<lambda>f a b. Inl (ValueError ''f(a) and f(b) must have different signs''))
       (\<lambda>f x. x) (\<lambda>v. RGB \<bar>v - 1 / 2\<bar> 0 0) 4 None None None 0 None 1 None
       = Inr (Returned carr, out)
     \<and> int (length carr) = 4
     \<and> carr ! 1 = RGB (1 / 2) 0 0
     \<and> (''Warning: unable to solve for value in l2vL()'', 1 / 6) \<in> set out"
proof -
  let ?cc = "(\<lambda>t src dst. t) :: converter"
  let ?bis = "(\<lambda>f a b. Inl (ValueError ''f(a) and f(b) must have different signs'')) :: solver"
  let ?mini = "(\<lambda>f x. x) :: optimizer"
  let ?cm = "\<lambda>v::real. RGB \<bar>v - 1 / 2\<bar> 0 0"
  let ?L = "[1 / 2, 1 / 6, 1 / 6, 1 / 2 :: real]"
  have N: "(0::int) \<le> 4" by simp
  have lmin_eff: "1 / 2 = sym_lmin ?cc ?cm None 0"
    by (simp add: sym_lmin_def v2l_def lightness_def)
  have lmid_eff: "0 = sym_lmid ?cc ?cm None None"
    by (simp add: sym_lmid_def v2l_def lightness_def)
  have lmax_eff: "1 / 2 = sym_lmax ?cc ?cm None 1"
    by (simp add: sym_lmax_def v2l_def lightness_def)
  have check: "(1 / 2 - 0) * (0 - 1 / 2) < (0::real)" by simp
  have mid: "sym_midpoint ?cc ?mini ?cm 0 (1 / 2) None = (1 / 2, 0)"
    by (simp add: sym_midpoint_def v2l_def lightness_def Let_def)
  have i: "(1::nat) < length ?L" by simp
  have fails: "if (1::nat) < nat (4 div 2)
                then ?bis (\<lambda>x. v2l ?cc ?cm x - ?L ! 1) 0 (1 / 2)
                       = Inl (ValueError ''f(a) and f(b) must have different signs'')
                else ?bis (\<lambda>x. v2l ?cc ?cm x - ?L ! 1) (1 / 2) 1
                       = Inl (ValueError ''f(a) and f(b) must have different signs'')"
    by simp
  from symmetrize_fallback[where N = 4 and cc = ?cc and cm = ?cm and bisect = ?bis
      and minimize = ?mini and lmin = None and lmid = None and lmax = None and vmin = 0
      and vmid = None and vmax = 1 and save = None and L = ?L and i = 1
      and lmin_eff = "1 / 2" and lmid_eff = 0 and lmax_eff = "1 / 2" and vmid_new = "1 / 2" and lmid_new = 0
      and e = "ValueError ''f(a) and f(b) must have different signs''",
      OF N lmin_eff lmid_eff lmax_eff check mid vee_targets i fails]
  obtain carr out where
    r: "symmetrize ?cc ?bis ?mini ?cm 4 None None None 0 None 1 None = Inr (finish None carr, out)"
    and n: "int (length carr) = 4"
    and c: "carr ! 1 = ?cm (if ?L ! 1 > 75 then 0.5 else if (1::nat) < nat (4 div 2) then 0.0 else 1.0)"
    and w: "(if (1::nat) < nat (4 div 2)
             then (''Warning: unable to solve for value in l2vL()'', ?L ! 1)
             else (''Warning: unable to solve for value in l2vR()'', ?L ! 1)) \<in> set out"
    by (elim exE conjE)
  have r': "symmetrize ?cc ?bis ?mini ?cm 4 None None None 0 None 1 None = Inr (Returned carr, out)"
    using r by (simp add: finish_def)
  have c': "carr ! 1 = RGB (1 / 2) 0 0" using c by simp
  have w': "(''Warning: unable to solve for value in l2vL()'', 1 / 6 :: real) \<in> set out"
    using w by simp
  show ?thesis by (intro exI[of _ carr] exI[of _ out] conjI r' n c' w')
qed


theorem symmetrize_halves_witness:
  "\<exists>L left right out.
     symmetrize (\<lambda>t src dst. t) (\<lambda>f a b. Inr a) (\<lambda>f x. x)
       (\<lambda>v. RGB \<bar>v - 1 / 2\<bar> 0 0) 4 None None None 0 None 1 None
       = Inr (Returned (left @ right), out)
     \<and> sym_targets (1 / 2) 0 (1 / 2) 4 = Inr L
     \<and> int (length L) = 4 \<and> int (length left) = 2 \<and> int (length right) = 2
     \<and> int (length (left @ right)) = 4"
proof -
  let ?cc = "(\<lambda>t src dst. t) :: converter"
  let ?bis = "(\<lambda>f a b. Inr a) :: solver"
  let ?mini = "(\<lambda>f x. x) :: optimizer"
  let ?cm = "\<lambda>v::real. RGB \<bar>v - 1 / 2\<bar> 0 0"
  have ev: "even (4::int)" and N: "(0::int) \<le> 4" by simp_all
  have lmin_eff: "1 / 2 = sym_lmin ?cc ?cm None 0"
    by (simp add: sym_lmin_def v2l_def lightness_def)
  have lmid_eff: "0 = sym_lmid ?cc ?cm None None"
    by (simp add: sym_lmid_def v2l_def lightness_def)
  have lmax_eff: "1 / 2 = sym_lmax ?cc ?cm None 1"
    by (simp add: sym_lmax_def v2l_def lightness_def)
  have check: "(1 / 2 - 0) * (0 - 1 / 2) < (0::real)" by simp
  have mid: "sym_midpoint ?cc ?mini ?cm 0 (1 / 2) None = (1 / 2, 0)"
    by (simp add: sym_midpoint_def v2l_def lightness_def Let_def)
  note t = symmetrize_halves[where N = 4 and cc = ?cc and cm = ?cm and bisect = ?bis
      and minimize = ?mini and lmin = None and lmid = None and lmax = None and vmin = 0
      and vmid = None and vmax = 1 and save = None
      and lmin_eff = "1 / 2" and lmid_eff = 0 and lmax_eff = "1 / 2"
      and vmid_new = "1 / 2" and lmid_new = 0,
      OF ev N lmin_eff lmid_eff lmax_eff check mid]
  from t show ?thesis
  proof (elim exE conjE)
    fix L left right out
    assume n: "int (length L) = 4"
      and tg: "sym_targets (1 / 2) 0 (1 / 2) 4 = Inr L"
      and r: "symmetrize ?cc ?bis ?mini ?cm 4 None None None 0 None 1 None
              = Inr (finish None (left @ right), out)"
      and l1: "int (length left) = 4 div 2" and l2: "int (length right) = 4 div 2"
      and l3: "int (length (left @ right)) = 4"
    have r': "symmetrize ?cc ?bis ?mini ?cm 4 None None None 0 None 1 None
              = Inr (Returned (left @ right), out)"
      using r by (simp add: finish_def)
    have l1': "int (length left) = 2" using l1 by simp
    have l2': "int (length right) = 2" using l2 by simp
    show ?thesis
      by (rule exI[of _ L], rule exI[of _ left], rule exI[of _ right], rule exI[of _ out])
         (intro conjI r' tg n l1' l2' l3)
  qed
qed

theorem symmetrize_supplied_lmid_witness:
  "symmetrize (\<lambda>t src dst. t) (\<lambda>f a b. Inr a) (\<lambda>f x. x)
     (\<lambda>v. RGB \<bar>v - 1 / 2\<bar> 0 0) 4 None (Some 0) None 0 None 1 None
   = symmetrize (\<lambda>t src dst. t) (\<lambda>f a b. Inr a) (\<lambda>f x. x)
     (\<lambda>v. RGB \<bar>v - 1 / 2\<bar> 0 0) 4 None (Some (1 / 4)) None 0 None 1 None"
proof -
  let ?cc = "(\<lambda>t src dst. t) :: converter"
  let ?bis = "(\<lambda>f a b. Inr a) :: solver"
  let ?mini = "(\<lambda>f x. x) :: optimizer"
  let ?cm = "\<lambda>v::real. RGB \<bar>v - 1 / 2\<bar> 0 0"
  have lmin_eff: "1 / 2 = sym_lmin ?cc ?cm None 0"
    by (simp add: sym_lmin_def v2l_def lightness_def)
  have lmax_eff: "1 / 2 = sym_lmax ?cc ?cm None 1"
    by (simp add: sym_lmax_def v2l_def lightness_def)
  have same_check: "(0 \<le> (1 / 2 - 0) * (0 - 1 / 2 :: real))
                      = (0 \<le> (1 / 2 - 1 / 4) * (1 / 4 - 1 / 2 :: real))" by simp
  have same_shape: "((0::real) < 1 / 2) = ((1 / 4 :: real) < 1 / 2)" by simp
  from symmetrize_supplied_lmid[where cc = ?cc and cm = ?cm and bisect = ?bis
      and minimize = ?mini and lmin = None and lmax = None and vmin = 0 and vmax = 1
      and N = 4 and save = None and a = 0 and b = "1 / 4"
      and lmin_eff = "1 / 2" and lmax_eff = "1 / 2",
      OF lmin_eff lmax_eff same_check same_shape]
  show ?thesis by (rule conjunct1)
qed


lemma sub_targets: "sym_targets 50 20 50 4 = Inr [50, 50 / 3, 50 / 3, 50]"
  by (simp add: sym_targets_def linspace_def linspace_sample_def absolute_def Let_def
        upt_conv_Cons)

text \<open>
  The claim as stated (the fallback is the outer end of the bracket) fails when \<open>vmin\<close> or
  \<open>vmax\<close> is not the default. On the bracket \<open>[1/4, 3/4]\<close> with \<open>vmid = 1/2\<close>, the map of
  lightness \<open>20 + 120 |v - 1/2|\<close> and \<open>N = 4\<close>, the targets are \<open>50, 50/3, 50/3, 50\<close>. The two
  middle ones are below the lightness of the map on the bracket, so \<^verbatim>\<open>bisect\<close> refuses both
  brackets (no change of sign), and the samples are \<open>cm(0.0)\<close> and \<open>cm(1.0)\<close>, outside the
  bracket, not \<open>cm(1/4)\<close> and \<open>cm(3/4)\<close>. The solver here does what \<^verbatim>\<open>scipy.optimize.bisect\<close>
  does on the four calls made: it raises when \<open>f(a) f(b) > 0\<close> and returns the end at which
  \<open>f\<close> is zero.
\<close>

theorem symmetrize_fallback_counterexample:
  "symmetrize (\<lambda>t src dst. t)
     (\<lambda>f a b. if f a * f b > 0
               then Inl (ValueError ''f(a) and f(b) must have different signs'')
               else if f a = 0 then Inr a else Inr b)
     (\<lambda>f x. x) (\<lambda>v. RGB (20 + 120 * \<bar>v - 1 / 2\<bar>) 0 0) 4
     None None None (1 / 4) (Some (1 / 2)) (3 / 4) None
   = Inr (Returned [RGB 50 0 0, RGB 80 0 0, RGB 80 0 0, RGB 50 0 0],
          [(''Warning: unable to solve for value in l2vL()'', 50 / 3),
           (''Warning: unable to solve for value in l2vR()'', 50 / 3)])
   \<and> RGB 80 0 0 = RGB (20 + 120 * \<bar>0.0 - 1 / 2\<bar>) 0 0
   \<and> RGB 80 0 0 \<noteq> RGB (20 + 120 * \<bar>1 / 4 - 1 / 2\<bar>) 0 0
   \<and> RGB 80 0 0 = RGB (20 + 120 * \<bar>1.0 - 1 / 2\<bar>) 0 0
   \<and> RGB 80 0 0 \<noteq> RGB (20 + 120 * \<bar>3 / 4 - 1 / 2\<bar>) 0 0"
proof -
  let ?cc = "(\<lambda>t src dst. t) :: converter"
  let ?bis = "(\<lambda>f a b. if f a * f b > 0
               then Inl (ValueError ''f(a) and f(b) must have different signs'')
               else if f a = 0 then Inr a else Inr b) :: solver"
  let ?mini = "(\<lambda>f x. x) :: optimizer"
  let ?cm = "\<lambda>v::real. RGB (20 + 120 * \<bar>v - 1 / 2\<bar>) 0 0"
  let ?L = "[50, 50 / 3, 50 / 3, 50 :: real]"
  have lmin_eff: "50 = sym_lmin ?cc ?cm None (1 / 4)"
    by (simp add: sym_lmin_def v2l_def lightness_def)
  have lmid_eff: "20 = sym_lmid ?cc ?cm None (Some (1 / 2))"
    by (simp add: sym_lmid_def v2l_def lightness_def)
  have lmax_eff: "50 = sym_lmax ?cc ?cm None (3 / 4)"
    by (simp add: sym_lmax_def v2l_def lightness_def)
  have check: "(50 - 20) * (20 - 50) < (0::real)" by simp
  have mid: "sym_midpoint ?cc ?mini ?cm 20 50 (Some (1 / 2)) = (1 / 2, 20)"
    by (simp add: sym_midpoint_def)
  have v: "\<And>x. v2l ?cc ?cm x = 20 + 120 * \<bar>x - 1 / 2\<bar>" by (simp add: v2l_def lightness_def)
  have a0: "l2vL ?cc ?bis ?cm (1 / 4) (1 / 2) 50 = (1 / 4, [])"
    by (simp add: l2vL_def v)
  have a1: "l2vL ?cc ?bis ?cm (1 / 4) (1 / 2) (50 / 3)
              = (0, [(''Warning: unable to solve for value in l2vL()'', 50 / 3)])"
    by (simp add: l2vL_def v)
  have a2: "l2vR ?cc ?bis ?cm (1 / 2) (3 / 4) (50 / 3)
              = (1, [(''Warning: unable to solve for value in l2vR()'', 50 / 3)])"
    by (simp add: l2vR_def v)
  have a3: "l2vR ?cc ?bis ?cm (1 / 2) (3 / 4) 50 = (3 / 4, [])"
    by (simp add: l2vR_def v)
  have carr: "sym_carr ?cc ?bis ?cm 4 (1 / 4) (1 / 2) (3 / 4) ?L
                = ([RGB 50 0 0, RGB 80 0 0, RGB 80 0 0, RGB 50 0 0],
                   [(''Warning: unable to solve for value in l2vL()'', 50 / 3),
                    (''Warning: unable to solve for value in l2vR()'', 50 / 3)])"
    by (simp add: sym_carr_def Let_def a0 a1 a2 a3)
  have "symmetrize ?cc ?bis ?mini ?cm 4 None None None (1 / 4) (Some (1 / 2)) (3 / 4) None
          = Inr (Returned [RGB 50 0 0, RGB 80 0 0, RGB 80 0 0, RGB 50 0 0],
                 [(''Warning: unable to solve for value in l2vL()'', 50 / 3),
                  (''Warning: unable to solve for value in l2vR()'', 50 / 3)])"
    using symmetrize_unfold[where cc = ?cc and cm = ?cm and bisect = ?bis and minimize = ?mini
        and lmin = None and lmid = None and lmax = None and vmin = "1 / 4"
        and vmid = "Some (1 / 2)" and vmax = "3 / 4" and save = None and N = 4 and L = ?L
        and lmin_eff = 50 and lmid_eff = 20 and lmax_eff = 50 and vmid_new = "1 / 2"
        and lmid_new = 20, OF lmin_eff lmid_eff lmax_eff check mid sub_targets]
    by (simp add: carr finish_def)
  then show ?thesis by simp
qed

subsection \<open>Mirrored samples of \<^verbatim>\<open>symmetrize\<close>\<close>








end
